theory Spec2Isabelle
  imports Complex_Main "HOL-Library.Sublist"
begin

section \<open>Data model of js/data-service.js\<close>

text \<open>
  JavaScript numbers are IEEE 754 doubles. A finite double is modelled by the real number
  it denotes; \<open>NaN\<close> and the infinities are outside this development. The sums that the
  snapshot builder, the total balance, the transfer merger and the adjustment aggregator
  accumulate are modelled with the rounded addition and subtraction of doubles (\<open>dadd\<close>,
  \<open>dsub\<close> below), since the properties proved of them compare sums accumulated in different
  orders. The performance calculator, the delta, the comparator and the projection are
  modelled with the operations of the reals: their theorems equate the result with the
  very expression the source evaluates.
\<close>

subsection \<open>Portfolio documents\<close>

text \<open>
  An asset entry of a monthly document: \<open>{name, source, val}\<close>, to which the transfer
  merger adds \<open>originalVal\<close>, \<open>adjustmentHistory\<close>, \<open>isVirtual\<close> and \<open>adjustment\<close>.
  A property that is \<open>undefined\<close> is \<open>None\<close>; \<open>isVirtual\<close> is only ever read as
  \<open>item.isVirtual || false\<close>, so an absent flag is \<open>False\<close>.
\<close>

record item =
  name :: string
  source :: string
  val :: real
  originalVal :: "real option"
  adjustmentHistory :: "real list option"
  isVirtual :: bool
  adjustment :: "real option"

text \<open>
  A category; \<open>items\<close> is \<open>None\<close> when the \<open>items\<close> property is missing or is not a
  list, so that \<open>forEach\<close>, \<open>reduce\<close> and \<open>find\<close> on it raise.
\<close>

record category =
  id_cat :: string
  title :: string
  color :: string
  items :: "item list option"

text \<open>
  The \<open>portfolio\<close> property of a document as the source can tell it apart: missing or
  falsy (\<open>NoPortfolio\<close>), a truthy value that is not an array and so has none of
  \<open>forEach\<close>, \<open>reduce\<close>, \<open>find\<close> (\<open>NotAList\<close>), or a list of categories.
\<close>

datatype portfolioField = NoPortfolio | NotAList | Categories "category list"

record document =
  portfolio :: portfolioField

text \<open>The only exception the modelled functions raise.\<close>

datatype error = TypeError

text \<open>An entry as it stands in a month file, before any merge.\<close>

definition raw_item :: "string \<Rightarrow> string \<Rightarrow> real \<Rightarrow> item" where
  "raw_item n s v =
     \<lparr>name = n, source = s, val = v, originalVal = None, adjustmentHistory = None,
      isVirtual = False, adjustment = None\<rparr>"

subsection \<open>Transfer records\<close>

text \<open>
  A transfer is an object with a \<open>type\<close> tag. The arguments are, in order,
  \<open>category, source, name, amount\<close> for a deposit and a withdraw, and
  \<open>from_category, from_source, from_name, to_category, to_source, to_name, amount\<close>
  for a move. Every other tag is skipped by all the loops of the source: \<open>Other\<close>.
\<close>

datatype transfer =
    Deposit string string string real
  | Withdraw string string string real
  | Move string string string string string string real
  | Other

subsection \<open>Results\<close>

record performance =
  startBalance :: real
  endBalance :: real
  totalDeposits :: real
  totalWithdraws :: real
  netFlow :: real
  profit :: real
  yieldPercent :: real

record deltaInfo =
  delta :: real
  percent :: real
  adjustedStart :: real
  previousVal :: real
  currentVal :: real

section \<open>Addition and subtraction of doubles\<close>

text \<open>
  Rounding to the nearest integer, ties to the even one.
\<close>

definition roundTiesEven :: "real \<Rightarrow> int" where
  "roundTiesEven x =
     (let f = \<lfloor>x\<rfloor>; r = x - of_int f
      in if r < 1 / 2 then f
         else if r > 1 / 2 then f + 1
         else if even f then f else f + 1)"

text \<open>
  A positive real \<open>a\<close> is written \<open>m * 2 powi e\<close> with \<open>2 ^ 52 \<le> m < 2 ^ 53\<close>, or with
  \<open>e = -1074\<close> and a smaller \<open>m\<close> in the subnormal range: \<open>scaleDown\<close> halves while the
  significand is too large, \<open>scaleUp\<close> doubles while it is too small and the exponent is
  above the least one.
\<close>

function scaleDown :: "real \<Rightarrow> int \<Rightarrow> real \<times> int" where
  "scaleDown m e = (if m \<ge> 2 ^ 53 then scaleDown (m / 2) (e + 1) else (m, e))"
  by pat_completeness auto
termination
proof (relation "measure (\<lambda>(m, e). nat \<lceil>m\<rceil>)")
  show "wf (measure (\<lambda>(m, e). nat \<lceil>m\<rceil>))" by simp
next
  fix m :: real and e :: int
  assume "2 ^ 53 \<le> m"
  then have big: "2 \<le> m" by simp
  have "of_int \<lceil>m / 2\<rceil> < m / 2 + 1" and "m \<le> of_int \<lceil>m\<rceil>"
    using ceiling_correct [of "m / 2"] ceiling_correct [of m] by linarith+
  with big have "(of_int \<lceil>m / 2\<rceil> :: real) < of_int \<lceil>m\<rceil>" by linarith
  then have "\<lceil>m / 2\<rceil> < \<lceil>m\<rceil>" by simp
  moreover have "0 < \<lceil>m\<rceil>" using big by simp
  ultimately show "((m / 2, e + 1), (m, e)) \<in> measure (\<lambda>(m, e). nat \<lceil>m\<rceil>)"
    by simp
qed

function scaleUp :: "real \<Rightarrow> int \<Rightarrow> real \<times> int" where
  "scaleUp m e = (if m < 2 ^ 52 \<and> e > - 1074 then scaleUp (m * 2) (e - 1) else (m, e))"
  by pat_completeness auto
termination
  by (relation "measure (\<lambda>(m, e). nat (e + 1074))") auto

declare scaleDown.simps [simp del]
declare scaleUp.simps [simp del]

text \<open>
  The double nearest to a real (round to nearest, ties to even). A result beyond the
  largest double, which is \<open>Infinity\<close> in the source, is outside the model.
\<close>

definition toDouble :: "real \<Rightarrow> real" where
  "toDouble x =
     (if x = 0 then 0
      else let (m1, e1) = scaleDown \<bar>x\<bar> 0;
               (m, e) = scaleUp m1 e1
           in sgn x * of_int (roundTiesEven m) * 2 powi e)"

text \<open>\<open>x + y\<close> and \<open>x - y\<close> of the source, on doubles.\<close>

definition dadd :: "real \<Rightarrow> real \<Rightarrow> real" where
  "dadd x y = toDouble (x + y)"

definition dsub :: "real \<Rightarrow> real \<Rightarrow> real" where
  "dsub x y = toDouble (x - y)"

text \<open>A whole number.\<close>

definition isWhole :: "real \<Rightarrow> bool" where
  "isWhole x = (of_int \<lfloor>x\<rfloor> = x)"

section \<open>Performance calculator\<close>

text \<open>
  The loop of \<open>calculatePerformance\<close> over the transfers: the state is the pair
  \<open>(totalDeposits, totalWithdraws)\<close>.
\<close>

fun perfStep :: "real \<times> real \<Rightarrow> transfer \<Rightarrow> real \<times> real" where
  "perfStep (totalDep, totalWd) (Deposit c s n amount) = (totalDep + amount, totalWd)"
| "perfStep (totalDep, totalWd) (Withdraw c s n amount) = (totalDep, totalWd + amount)"
| "perfStep (totalDep, totalWd) t = (totalDep, totalWd)"

text \<open>
  \<open>transfers\<close> is \<open>None\<close> when the argument is null, undefined or not an array
  (\<open>transfers && Array.isArray(transfers)\<close>).
\<close>

definition calculatePerformance ::
  "real \<Rightarrow> real \<Rightarrow> transfer list option \<Rightarrow> bool \<Rightarrow> performance" where
  "calculatePerformance startBal endBal transfers isFirstMonth =
     (if isFirstMonth then
        \<lparr>startBalance = 0, endBalance = endBal, totalDeposits = endBal,
         totalWithdraws = 0, netFlow = endBal, profit = 0, yieldPercent = 0\<rparr>
      else
        let (totalDep, totalWd) =
              (case transfers of None \<Rightarrow> (0, 0) | Some ts \<Rightarrow> foldl perfStep (0, 0) ts);
            netFl = totalDep - totalWd;
            prof = endBal - (startBal + netFl);
            investedCapital = startBal + totalDep;
            yieldPct = (if investedCapital > 1 / 100 then (prof / investedCapital) * 100
                        else if prof > 0 then 100
                        else 0)
        in \<lparr>startBalance = startBal, endBalance = endBal, totalDeposits = totalDep,
            totalWithdraws = totalWd, netFlow = netFl, profit = prof,
            yieldPercent = yieldPct\<rparr>)"





section \<open>Month-over-month delta\<close>

definition calculateDelta :: "real \<Rightarrow> real \<Rightarrow> real \<Rightarrow> deltaInfo" where
  "calculateDelta currentV previousV adj =
     (let adjStart = previousV + adj;
          d = currentV - adjStart;
          pct = (if adjStart > 0 then (d / adjStart) * 100
                 else if currentV > 0 \<and> adjStart = 0 then 0
                 else 0)
      in \<lparr>delta = d, percent = pct, adjustedStart = adjStart,
          previousVal = previousV, currentVal = currentV\<rparr>)"

section \<open>Forecast: projected annual return\<close>

text \<open>\<open>Math.pow\<close> is only reached with a positive base, where it is \<open>powr\<close>.\<close>

definition calculateProjectedAnnual :: "real \<Rightarrow> real \<Rightarrow> real" where
  "calculateProjectedAnnual ytd monthsPassed =
     (if monthsPassed \<le> 0 then 0
      else let exponent = 12 / monthsPassed;
               base = 1 + ytd
           in if base \<le> 0 then - 1 else base powr exponent - 1)"

section \<open>Objects used as dictionaries\<close>

text \<open>
  A JavaScript object used as a string-keyed dictionary is an association list in
  insertion order. \<open>obj_set k v m\<close> is the assignment \<open>m[k] = v\<close>: an existing key keeps
  its place and takes the new value, a new key goes to the end. \<open>map_of m k\<close> is the
  read \<open>m[k]\<close> (\<open>None\<close> for \<open>undefined\<close>), \<open>obj_keys\<close> is \<open>Object.keys\<close>.
\<close>

type_synonym 'v obj = "(string \<times> 'v) list"

fun obj_set :: "string \<Rightarrow> 'v \<Rightarrow> 'v obj \<Rightarrow> 'v obj" where
  "obj_set k v [] = [(k, v)]"
| "obj_set k v ((k', v') # m) =
     (if k' = k then (k, v) # m else (k', v') # obj_set k v m)"

definition obj_keys :: "'v obj \<Rightarrow> string list" where
  "obj_keys m = map fst m"

text \<open>\<open>new Set([...])\<close> keeps the first occurrence of every element, in order.\<close>

fun uniq :: "string list \<Rightarrow> string list \<Rightarrow> string list" where
  "uniq seen [] = []"
| "uniq seen (k # ks) = (if k \<in> set seen then uniq seen ks else k # uniq (k # seen) ks)"

section \<open>Asset keys\<close>

text \<open>
  \<open>getAssetKey\<close> joins the three parts with underscores, lower-cases the result and
  replaces every maximal run of whitespace by one underscore. Characters are bytes here:
  the letters folded are \<open>A\<close> to \<open>Z\<close> and the whitespace is the ASCII one.
\<close>

definition toLowerChar :: "char \<Rightarrow> char" where
  "toLowerChar c =
     (case map_of (zip ''ABCDEFGHIJKLMNOPQRSTUVWXYZ'' ''abcdefghijklmnopqrstuvwxyz'') c of
        None \<Rightarrow> c | Some l \<Rightarrow> l)"

definition toLowerCase :: "string \<Rightarrow> string" where
  "toLowerCase s = map toLowerChar s"

definition isSpace :: "char \<Rightarrow> bool" where
  "isSpace c = (c \<in> set [CHR '' '', CHR 0x09, CHR 0x0A, CHR 0x0B, CHR 0x0C, CHR 0x0D])"

text \<open>\<open>replace(/\s+/g, '_')\<close>: the flag says whether the previous character was whitespace.\<close>

fun replaceSpaces :: "bool \<Rightarrow> string \<Rightarrow> string" where
  "replaceSpaces inRun [] = []"
| "replaceSpaces inRun (c # cs) =
     (if isSpace c then (if inRun then replaceSpaces True cs
                         else CHR ''_'' # replaceSpaces True cs)
      else c # replaceSpaces False cs)"

definition getAssetKey :: "string \<Rightarrow> string \<Rightarrow> string \<Rightarrow> string" where
  "getAssetKey categoryId src nm =
     replaceSpaces False (toLowerCase (categoryId @ ''_'' @ src @ ''_'' @ nm))"

section \<open>Property assignment\<close>

text \<open>
  The assignment \<open>obj[k] = v\<close> on an object literal. The key \<open>__proto__\<close> is not an own
  property: assigning an object to it replaces the prototype, and \<open>Object.keys\<close> never
  lists it. The snapshot builder and the adjustment aggregator assign under keys taken
  from the documents and the transfers: their assignments are \<open>assignProp\<close>. The
  comparator assigns under keys that \<open>Object.keys\<close> returned, which are own keys: its
  assignments are \<open>obj_set\<close>. Keys that look like array indices, which \<open>Object.keys\<close>
  lists first, are kept in insertion order here; no statement below depends on the
  order of the keys.
\<close>

definition assignProp :: "string \<Rightarrow> 'v \<Rightarrow> 'v obj \<Rightarrow> 'v obj" where
  "assignProp k v m = (if k = ''__proto__'' then m else obj_set k v m)"

section \<open>Snapshot builder\<close>

record assetData =
  key :: string
  categoryId :: string
  source_a :: string
  name_a :: string
  val_a :: real
  originalVal_a :: real
  isVirtual_a :: bool
  adjustment_a :: real

record catData =
  id_cd :: string
  title_cd :: string
  color_cd :: string
  total_cd :: real
  items_cd :: "assetData obj"

record snapshot =
  total_s :: real
  categories :: "catData obj"
  assetMap :: "assetData obj"

definition emptySnapshot :: snapshot where
  "emptySnapshot = \<lparr>total_s = 0, categories = [], assetMap = []\<rparr>"

definition mkAssetData :: "category \<Rightarrow> item \<Rightarrow> assetData" where
  "mkAssetData cat it =
     \<lparr>key = getAssetKey (id_cat cat) (source it) (name it),
      categoryId = id_cat cat,
      source_a = source it,
      name_a = name it,
      val_a = val it,
      originalVal_a = (case originalVal it of None \<Rightarrow> val it | Some v \<Rightarrow> v),
      isVirtual_a = isVirtual it,
      adjustment_a = (case adjustment it of None \<Rightarrow> 0 | Some a \<Rightarrow> a)\<rparr>"

text \<open>
  The inner \<open>forEach\<close> over the items of one category: the state is the category
  record under construction and the asset map of the snapshot.
\<close>

fun itemStep :: "category \<Rightarrow> catData \<times> assetData obj \<Rightarrow> item \<Rightarrow> catData \<times> assetData obj" where
  "itemStep cat (cd, am) it =
     (let a = mkAssetData cat it
      in (cd\<lparr>items_cd := assignProp (key a) a (items_cd cd),
             total_cd := dadd (total_cd cd) (val it)\<rparr>,
          assignProp (key a) a am))"

text \<open>
  The body of the outer \<open>forEach\<close>, for a category whose item list is \<open>its\<close>.
\<close>

definition catBody :: "snapshot \<Rightarrow> category \<Rightarrow> item list \<Rightarrow> snapshot" where
  "catBody snap cat its =
     (let cd0 = \<lparr>id_cd = id_cat cat, title_cd = title cat, color_cd = color cat,
                 total_cd = 0, items_cd = []\<rparr>;
          (cd, am) = foldl (itemStep cat) (cd0, assetMap snap) its
      in \<lparr>total_s = dadd (total_s snap) (total_cd cd),
          categories = assignProp (id_cat cat) cd (categories snap),
          assetMap = am\<rparr>)"

text \<open>\<open>cat.items.forEach\<close> raises when the category has no item list.\<close>

definition catStep :: "snapshot \<Rightarrow> category \<Rightarrow> error + snapshot" where
  "catStep snap cat =
     (case items cat of None \<Rightarrow> Inl TypeError | Some its \<Rightarrow> Inr (catBody snap cat its))"

text \<open>The outer \<open>forEach\<close>: the first exception ends it.\<close>

fun buildLoop :: "snapshot \<Rightarrow> category list \<Rightarrow> error + snapshot" where
  "buildLoop snap [] = Inr snap"
| "buildLoop snap (cat # cats) =
     (case catStep snap cat of Inl e \<Rightarrow> Inl e | Inr snap' \<Rightarrow> buildLoop snap' cats)"

text \<open>
  The second parameter of \<open>buildSnapshot\<close> (\<open>transfers\<close>) is never read. The guard tests
  the document and its \<open>portfolio\<close> for falsiness only; \<open>forEach\<close> on a value that is
  not a list raises.
\<close>

definition buildSnapshot :: "document option \<Rightarrow> error + snapshot" where
  "buildSnapshot portfolioData =
     (case portfolioData of
        None \<Rightarrow> Inr emptySnapshot
      | Some d \<Rightarrow>
          (case portfolio d of
             NoPortfolio \<Rightarrow> Inr emptySnapshot
           | NotAList \<Rightarrow> Inl TypeError
           | Categories cats \<Rightarrow> buildLoop emptySnapshot cats))"

text \<open>
  The asset entries of a category list, their exact sum, the sum of their absolute
  values, the total of one category as the source accumulates it, and the exact sum of
  the totals of the category records of a snapshot.
\<close>

definition itemsOf :: "category \<Rightarrow> item list" where
  "itemsOf c = (case items c of None \<Rightarrow> [] | Some its \<Rightarrow> its)"

definition allItems :: "category list \<Rightarrow> item list" where
  "allItems cats = concat (map itemsOf cats)"

definition assetValueSum :: "category list \<Rightarrow> real" where
  "assetValueSum cats = sum_list (map val (allItems cats))"

definition absValueSum :: "category list \<Rightarrow> real" where
  "absValueSum cats = sum_list (map (\<lambda>i. \<bar>val i\<bar>) (allItems cats))"

definition categoryTotal :: "category \<Rightarrow> real" where
  "categoryTotal c = foldl dadd 0 (map val (itemsOf c))"

definition categoryTotalSum :: "snapshot \<Rightarrow> real" where
  "categoryTotalSum snap = sum_list (map (\<lambda>(k, cd). total_cd cd) (categories snap))"

definition hasItems :: "category \<Rightarrow> bool" where
  "hasItems c = (items c \<noteq> None)"

definition wholeValue :: "item \<Rightarrow> bool" where
  "wholeValue i = isWhole (val i)"

section \<open>Total balance\<close>

text \<open>
  The outer \<open>reduce\<close> of \<open>calculateTotalBalance\<close>; \<open>category.items.reduce\<close> raises when
  the category has no item list, and \<open>reduce\<close> on a value that is not a list raises.
\<close>

fun balanceLoop :: "real \<Rightarrow> category list \<Rightarrow> error + real" where
  "balanceLoop tot [] = Inr tot"
| "balanceLoop tot (cat # cats) =
     (case items cat of
        None \<Rightarrow> Inl TypeError
      | Some its \<Rightarrow>
          balanceLoop (dadd tot (foldl (\<lambda>sum it. dadd sum (val it)) 0 its)) cats)"

definition calculateTotalBalance :: "document option \<Rightarrow> error + real" where
  "calculateTotalBalance portfolioData =
     (case portfolioData of
        None \<Rightarrow> Inr 0
      | Some d \<Rightarrow>
          (case portfolio d of
             NoPortfolio \<Rightarrow> Inr 0
           | NotAList \<Rightarrow> Inl TypeError
           | Categories cats \<Rightarrow> balanceLoop 0 cats))"

section \<open>Transfer merger\<close>

text \<open>
  The mutation that \<open>applyTransferOperation\<close> performs on the asset it has found or
  created: \<open>originalVal\<close> is stored on the first touch only, the amount is appended to
  \<open>adjustmentHistory\<close> and added to \<open>val\<close> and to \<open>adjustment\<close>, \<open>isVirtual\<close> is set.
\<close>

definition adjustAsset :: "real \<Rightarrow> item \<Rightarrow> item" where
  "adjustAsset amount asset =
     asset\<lparr>originalVal := (case originalVal asset of None \<Rightarrow> Some (val asset)
                                                    | Some v \<Rightarrow> Some v),
           adjustmentHistory := Some ((case adjustmentHistory asset of None \<Rightarrow> []
                                                                    | Some h \<Rightarrow> h) @ [amount]),
           val := dadd (val asset) amount,
           isVirtual := True,
           adjustment := Some (dadd (case adjustment asset of None \<Rightarrow> 0 | Some a \<Rightarrow> a)
                                 amount)\<rparr>"

text \<open>
  \<open>category.items.find(...)\<close> followed by the mutation: the first entry with this name
  and source is adjusted where it stands; when there is none, a new entry of value 0 is
  pushed at the end and adjusted.
\<close>

fun applyToItems :: "string \<Rightarrow> string \<Rightarrow> real \<Rightarrow> item list \<Rightarrow> item list" where
  "applyToItems src assetName amount [] = [adjustAsset amount (raw_item assetName src 0)]"
| "applyToItems src assetName amount (i # rest) =
     (if name i = assetName \<and> source i = src then adjustAsset amount i # rest
      else i # applyToItems src assetName amount rest)"

text \<open>
  \<open>applyTransferOperation\<close> reads and writes \<open>portfolioData.portfolio\<close> only, so it is a
  function on the category list: the first category with this identifier is used where
  it stands; when there is none, a new category (title the identifier, the default colour,
  no items) is pushed at the end. \<open>category.items.find\<close> raises, before anything is
  written, when the category found has no item list.
\<close>

fun applyTransferOperation ::
  "category list \<Rightarrow> string \<Rightarrow> string \<Rightarrow> string \<Rightarrow> real \<Rightarrow> error + category list" where
  "applyTransferOperation [] catId src assetName amount =
     Inr [\<lparr>id_cat = catId, title = catId, color = ''#cbd5e0'',
           items = Some (applyToItems src assetName amount [])\<rparr>]"
| "applyTransferOperation (c # rest) catId src assetName amount =
     (if id_cat c = catId
      then (case items c of
              None \<Rightarrow> Inl TypeError
            | Some its \<Rightarrow> Inr (c\<lparr>items := Some (applyToItems src assetName amount its)\<rparr> # rest))
      else (case applyTransferOperation rest catId src assetName amount of
              Inl e \<Rightarrow> Inl e
            | Inr rest' \<Rightarrow> Inr (c # rest')))"

text \<open>
  The body of the \<open>forEach\<close> of \<open>mergeTransfers\<close>: the category list after the step and
  the exception it raised, if any. What was written before an exception stays written.
\<close>

fun mergeStep :: "category list \<Rightarrow> transfer \<Rightarrow> category list \<times> error option" where
  "mergeStep cats (Deposit c s n amount) =
     (case applyTransferOperation cats c s n amount of
        Inl e \<Rightarrow> (cats, Some e) | Inr cats' \<Rightarrow> (cats', None))"
| "mergeStep cats (Withdraw c s n amount) =
     (case applyTransferOperation cats c s n (- amount) of
        Inl e \<Rightarrow> (cats, Some e) | Inr cats' \<Rightarrow> (cats', None))"
| "mergeStep cats (Move fc fs fn tc tsrc tn amount) =
     (case applyTransferOperation cats fc fs fn (- amount) of
        Inl e \<Rightarrow> (cats, Some e)
      | Inr cats' \<Rightarrow>
          (case applyTransferOperation cats' tc tsrc tn amount of
             Inl e \<Rightarrow> (cats', Some e) | Inr cats'' \<Rightarrow> (cats'', None)))"
| "mergeStep cats Other = (cats, None)"

fun mergeLoop :: "category list \<Rightarrow> transfer list \<Rightarrow> category list \<times> error option" where
  "mergeLoop cats [] = (cats, None)"
| "mergeLoop cats (t # ts) =
     (case mergeStep cats t of
        (cats', Some e) \<Rightarrow> (cats', Some e)
      | (cats', None) \<Rightarrow> mergeLoop cats' ts)"

text \<open>
  \<open>mergeTransfers\<close> works on the object it is handed: documents live in a store, the
  argument and the result are references into it (\<open>None\<close> for null), and the function
  returns the store after its writes together with the reference it returns or the
  exception it raises. On a \<open>portfolio\<close> that is not a list, \<open>find\<close> raises at the first
  deposit, withdraw or move.
\<close>

type_synonym docRef = nat
type_synonym store = "docRef \<Rightarrow> document"

definition mergeTransfers ::
  "store \<Rightarrow> docRef option \<Rightarrow> transfer list option \<Rightarrow> store \<times> (error + docRef option)" where
  "mergeTransfers h portfolioData transfers =
     (case transfers of
        None \<Rightarrow> (h, Inr portfolioData)
      | Some ts \<Rightarrow>
          if ts = [] then (h, Inr portfolioData)
          else (case portfolioData of
                  None \<Rightarrow> (h, Inr portfolioData)
                | Some p \<Rightarrow>
                    (case portfolio (h p) of
                       NoPortfolio \<Rightarrow> (h, Inr portfolioData)
                     | NotAList \<Rightarrow>
                         (if list_ex (\<lambda>t. t \<noteq> Other) ts then (h, Inl TypeError)
                          else (h, Inr portfolioData))
                     | Categories cats \<Rightarrow>
                         (case mergeLoop cats ts of
                            (cats', err) \<Rightarrow>
                              (h(p := (h p)\<lparr>portfolio := Categories cats'\<rparr>),
                               (case err of None \<Rightarrow> Inr portfolioData
                                          | Some e \<Rightarrow> Inl e))))))"

fun isMove :: "transfer \<Rightarrow> bool" where
  "isMove (Move fc fs fn tc tsrc tn amount) = True"
| "isMove t = False"

text \<open>
  The number of \<open>applyTransferOperation\<close> calls a transfer makes, its amount, the sum
  of the absolute amounts of all the calls of a transfer list, and the number of
  adjustment-history entries a category list holds.
\<close>

fun operationCount :: "transfer \<Rightarrow> nat" where
  "operationCount (Deposit c s n amount) = 1"
| "operationCount (Withdraw c s n amount) = 1"
| "operationCount (Move fc fs fn tc tsrc tn amount) = 2"
| "operationCount Other = 0"

fun amountOf :: "transfer \<Rightarrow> real" where
  "amountOf (Deposit c s n amount) = amount"
| "amountOf (Withdraw c s n amount) = amount"
| "amountOf (Move fc fs fn tc tsrc tn amount) = amount"
| "amountOf Other = 0"

definition wholeAmount :: "transfer \<Rightarrow> bool" where
  "wholeAmount t = isWhole (amountOf t)"

definition absAmountSum :: "transfer list \<Rightarrow> real" where
  "absAmountSum ts = sum_list (map (\<lambda>t. real (operationCount t) * \<bar>amountOf t\<bar>) ts)"




section \<open>Adjustment aggregator\<close>

record adjustmentEntry =
  deposits :: real
  withdraws :: real
  net :: real

text \<open>
  \<open>if (!adjustments[key]) adjustments[key] = {deposits: 0, withdraws: 0, net: 0}\<close>
  followed by the two updates of the entry. For the key \<open>__proto__\<close> the read gives the
  prototype object, which is truthy, and the updates go to that object: the map gets no
  entry.
\<close>

definition entryOf :: "adjustmentEntry obj \<Rightarrow> string \<Rightarrow> adjustmentEntry" where
  "entryOf adjustments k =
     (case map_of adjustments k of
        None \<Rightarrow> \<lparr>deposits = 0, withdraws = 0, net = 0\<rparr>
      | Some a \<Rightarrow> a)"

definition addDeposit :: "string \<Rightarrow> real \<Rightarrow> adjustmentEntry obj \<Rightarrow> adjustmentEntry obj" where
  "addDeposit k amount adjustments =
     (let a = entryOf adjustments k
      in assignProp k (a\<lparr>deposits := dadd (deposits a) amount, net := dadd (net a) amount\<rparr>)
           adjustments)"

definition addWithdraw :: "string \<Rightarrow> real \<Rightarrow> adjustmentEntry obj \<Rightarrow> adjustmentEntry obj" where
  "addWithdraw k amount adjustments =
     (let a = entryOf adjustments k
      in assignProp k (a\<lparr>withdraws := dadd (withdraws a) amount, net := dsub (net a) amount\<rparr>)
           adjustments)"

fun adjustStep :: "adjustmentEntry obj \<Rightarrow> transfer \<Rightarrow> adjustmentEntry obj" where
  "adjustStep adjustments (Deposit c s n amount) =
     addDeposit (getAssetKey c s n) amount adjustments"
| "adjustStep adjustments (Withdraw c s n amount) =
     addWithdraw (getAssetKey c s n) amount adjustments"
| "adjustStep adjustments (Move fc fs fn tc tsrc tn amount) =
     addDeposit (getAssetKey tc tsrc tn) amount
       (addWithdraw (getAssetKey fc fs fn) amount adjustments)"
| "adjustStep adjustments Other = adjustments"

definition getAdjustmentsPerAsset ::
  "transfer list option \<Rightarrow> document option \<Rightarrow> adjustmentEntry obj" where
  "getAdjustmentsPerAsset transfers portfolioData =
     (case transfers of
        None \<Rightarrow> []
      | Some ts \<Rightarrow>
          (case portfolioData of
             None \<Rightarrow> []
           | Some d \<Rightarrow> foldl adjustStep [] ts))"

text \<open>
  An entry of the adjustment map with whole-number fields of absolute value at most
  \<open>b\<close> whose net is its deposits less its withdraws.
\<close>

definition balanced :: "real \<Rightarrow> string \<times> adjustmentEntry \<Rightarrow> bool" where
  "balanced b e =
     (isWhole (deposits (snd e)) \<and> isWhole (withdraws (snd e)) \<and> isWhole (net (snd e))
      \<and> \<bar>deposits (snd e)\<bar> \<le> b \<and> \<bar>withdraws (snd e)\<bar> \<le> b \<and> \<bar>net (snd e)\<bar> \<le> b
      \<and> net (snd e) = deposits (snd e) - withdraws (snd e))"

section \<open>Comparator\<close>

datatype status = Normal | New | Ghost | Hidden

text \<open>The asset record of a comparison: \<open>{...deltaInfo, status, categoryId, source, name}\<close>.\<close>

record assetComparison = deltaInfo +
  status :: status
  categoryId_c :: "string option"
  source_c :: "string option"
  name_c :: "string option"

record comparison =
  portfolio_c :: deltaInfo
  categories_c :: "deltaInfo obj"
  assets :: "assetComparison obj"

text \<open>\<open>a || b\<close> on strings that may be undefined: the empty string is falsy.\<close>

definition orElse :: "string option \<Rightarrow> string option \<Rightarrow> string option" where
  "orElse a b = (case a of None \<Rightarrow> b | Some s \<Rightarrow> if s = [] then b else Some s)"

text \<open>The body of the loop over the asset keys.\<close>

definition compareAsset ::
  "snapshot \<Rightarrow> snapshot option \<Rightarrow> adjustmentEntry obj \<Rightarrow> string \<Rightarrow> assetComparison" where
  "compareAsset cur prev adjustments k =
     (let current = map_of (assetMap cur) k;
          previous = (case prev of None \<Rightarrow> None | Some p \<Rightarrow> map_of (assetMap p) k);
          adj = (case map_of adjustments k of None \<Rightarrow> 0 | Some a \<Rightarrow> net a);
          currentV = (case current of None \<Rightarrow> 0 | Some a \<Rightarrow> val_a a);
          previousV = (case previous of None \<Rightarrow> 0 | Some a \<Rightarrow> val_a a);
          deltaInf = calculateDelta currentV previousV adj;
          st = (if currentV > 0 \<and> previous = None then New
                else if currentV = 0 \<and> previousV > 0 then Ghost
                else if currentV = 0 \<and> previousV = 0 then Hidden
                else Normal)
      in \<lparr>delta = delta deltaInf, percent = percent deltaInf,
          adjustedStart = adjustedStart deltaInf, previousVal = previousVal deltaInf,
          currentVal = currentVal deltaInf,
          status = st,
          categoryId_c = orElse (map_option categoryId current) (map_option categoryId previous),
          source_c = orElse (map_option source_a current) (map_option source_a previous),
          name_c = orElse (map_option name_a current) (map_option name_a previous)\<rparr>)"

text \<open>The sum of the adjustments of one category: \<open>key.startsWith(catId + '_')\<close>.\<close>

definition catAdjustment :: "adjustmentEntry obj \<Rightarrow> string \<Rightarrow> real" where
  "catAdjustment adjustments catId =
     foldl (\<lambda>acc (k, adj). if prefix (catId @ ''_'') k then acc + net adj else acc)
       0 adjustments"

definition compareCategory ::
  "snapshot \<Rightarrow> snapshot option \<Rightarrow> adjustmentEntry obj \<Rightarrow> string \<Rightarrow> deltaInfo" where
  "compareCategory cur prev adjustments catId =
     (let currentCat = map_of (categories cur) catId;
          previousCat = (case prev of None \<Rightarrow> None | Some p \<Rightarrow> map_of (categories p) catId);
          currentTotal = (case currentCat of None \<Rightarrow> 0 | Some c \<Rightarrow> total_cd c);
          previousTotal = (case previousCat of None \<Rightarrow> 0 | Some c \<Rightarrow> total_cd c)
      in calculateDelta currentTotal previousTotal (catAdjustment adjustments catId))"

definition allAssetKeys :: "snapshot \<Rightarrow> snapshot option \<Rightarrow> string list" where
  "allAssetKeys cur prev =
     uniq [] (obj_keys (assetMap cur)
              @ (case prev of None \<Rightarrow> [] | Some p \<Rightarrow> obj_keys (assetMap p)))"

definition allCatIds :: "snapshot \<Rightarrow> snapshot option \<Rightarrow> string list" where
  "allCatIds cur prev =
     uniq [] (obj_keys (categories cur)
              @ (case prev of None \<Rightarrow> [] | Some p \<Rightarrow> obj_keys (categories p)))"

definition compareSnapshots ::
  "snapshot \<Rightarrow> snapshot option \<Rightarrow> adjustmentEntry obj \<Rightarrow> comparison" where
  "compareSnapshots cur prev adjustments =
     \<lparr>portfolio_c =
        calculateDelta (total_s cur) (case prev of None \<Rightarrow> 0 | Some p \<Rightarrow> total_s p)
          (foldl (\<lambda>sum (k, adj). sum + net adj) 0 adjustments),
      categories_c =
        foldl (\<lambda>acc catId. obj_set catId (compareCategory cur prev adjustments catId) acc)
          [] (allCatIds cur prev),
      assets =
        foldl (\<lambda>acc k. obj_set k (compareAsset cur prev adjustments k) acc)
          [] (allAssetKeys cur prev)\<rparr>"

text \<open>The sum of the net adjustments of the entries whose key starts with the
  identifier and an underscore, as the spec describes it.\<close>

definition prefixedNetSum :: "adjustmentEntry obj \<Rightarrow> string \<Rightarrow> real" where
  "prefixedNetSum adjustments catId =
     sum_list (map (\<lambda>(k, adj). net adj)
                 (filter (\<lambda>(k, adj). prefix (catId @ ''_'') k) adjustments))"

section \<open>Example documents\<close>

text \<open>A document with two categories of the same identifier.\<close>

definition twinDocument :: document where
  "twinDocument =
     \<lparr>portfolio = Categories
        [\<lparr>id_cat = ''crypto'', title = ''Crypto'', color = ''#f00'',
          items = Some [raw_item ''BTC'' ''Ledger'' 1]\<rparr>,
         \<lparr>id_cat = ''crypto'', title = ''Crypto 2'', color = ''#0f0'',
          items = Some [raw_item ''ETH'' ''Ledger'' 2]\<rparr>]\<rparr>"

text \<open>A document with one category holding \<open>2 ^ 53\<close>, 1 and 1.\<close>

definition largeDocument :: document where
  "largeDocument =
     \<lparr>portfolio = Categories
        [\<lparr>id_cat = ''crypto'', title = ''Crypto'', color = ''#f00'',
          items = Some [raw_item ''BTC'' ''Ledger'' (2 ^ 53), raw_item ''ETH'' ''Ledger'' 1,
                        raw_item ''SOL'' ''Ledger'' 1]\<rparr>]\<rparr>"

text \<open>A document whose only category has the identifier \<open>__proto__\<close>.\<close>

definition protoDocument :: document where
  "protoDocument =
     \<lparr>portfolio = Categories
        [\<lparr>id_cat = ''__proto__'', title = ''Proto'', color = ''#f00'',
          items = Some [raw_item ''BTC'' ''Ledger'' 7]\<rparr>]\<rparr>"

text \<open>A store whose every cell holds the same one-asset document.\<close>

definition oneDocument :: document where
  "oneDocument =
     \<lparr>portfolio = Categories
        [\<lparr>id_cat = ''crypto'', title = ''Crypto'', color = ''#f00'',
          items = Some [raw_item ''BTC'' ''Ledger'' 100]\<rparr>]\<rparr>"

definition oneStore :: store where
  "oneStore r = oneDocument"

text \<open>A store whose every cell holds a document with an asset of 3 and one of \<open>2 ^ 53\<close>.\<close>

definition unevenDocument :: document where
  "unevenDocument =
     \<lparr>portfolio = Categories
        [\<lparr>id_cat = ''cash'', title = ''Cash'', color = ''#0f0'',
          items = Some [raw_item ''USD'' ''Bank'' 3]\<rparr>,
         \<lparr>id_cat = ''crypto'', title = ''Crypto'', color = ''#f00'',
          items = Some [raw_item ''BTC'' ''Ledger'' (2 ^ 53)]\<rparr>]\<rparr>"

definition unevenStore :: store where
  "unevenStore r = unevenDocument"

text \<open>
  A store whose every cell holds a document with two assets of 0.1, that is of the
  double nearest to one tenth, \<open>3602879701896397 / 2 ^ 55\<close>.
\<close>

definition tenthsDocument :: document where
  "tenthsDocument =
     \<lparr>portfolio = Categories
        [\<lparr>id_cat = ''cash'', title = ''Cash'', color = ''#0f0'',
          items = Some [raw_item ''USD'' ''Bank'' (3602879701896397 / 2 ^ 55),
                        raw_item ''EUR'' ''Bank'' (3602879701896397 / 2 ^ 55)]\<rparr>]\<rparr>"

definition tenthsStore :: store where
  "tenthsStore r = tenthsDocument"

text \<open>Two months of one asset, held at 500 and then at 0, and an adjustment map.\<close>

definition heldDocument :: document where
  "heldDocument =
     \<lparr>portfolio = Categories
        [\<lparr>id_cat = ''crypto'', title = ''Crypto'', color = ''#f00'',
          items = Some [raw_item ''BTC'' ''Ledger'' 500]\<rparr>]\<rparr>"

definition soldDocument :: document where
  "soldDocument =
     \<lparr>portfolio = Categories
        [\<lparr>id_cat = ''crypto'', title = ''Crypto'', color = ''#f00'',
          items = Some [raw_item ''BTC'' ''Ledger'' 0]\<rparr>]\<rparr>"

definition exampleAdjustments :: "adjustmentEntry obj" where
  "exampleAdjustments =
     [(''crypto_ledger_btc'', \<lparr>deposits = 5, withdraws = 3, net = 2\<rparr>),
      (''cash_bank_usd'', \<lparr>deposits = 1, withdraws = 0, net = 1\<rparr>),
      (''crypto_ledger_eth'', \<lparr>deposits = 0, withdraws = 10, net = - 10\<rparr>)]"

section \<open>Theorems\<close>

subsection \<open>Performance calculator\<close>


text \<open>
  C2. With the first-month flag set, \<open>calculatePerformance\<close> returns profit 0, yield 0,
  start balance 0, the whole end balance as deposits and as net flow, and no withdraws,
  whatever start balance and transfers it is given.
\<close>

theorem calculatePerformance_first_month:
  "calculatePerformance s e transfers True =
     \<lparr>startBalance = 0, endBalance = e, totalDeposits = e, totalWithdraws = 0,
      netFlow = e, profit = 0, yieldPercent = 0\<rparr>"
  by (simp add: calculatePerformance_def)


subsection \<open>Delta\<close>

text \<open>
  C5. \<open>calculateDelta c p a\<close> returns \<open>adjustedStart = p + a\<close>,
  \<open>delta = c - adjustedStart\<close>, and \<open>percent = delta / adjustedStart * 100\<close> when
  \<open>adjustedStart > 0\<close>, else 0. A previously absent asset (previous value 0) now worth
  300 and funded by a deposit of 300 gets \<open>adjustedStart = 300\<close> and \<open>percent = 0\<close>.
\<close>

theorem calculateDelta_formula:
  "calculateDelta c p a =
     \<lparr>delta = c - (p + a),
      percent = (if p + a > 0 then (c - (p + a)) / (p + a) * 100 else 0),
      adjustedStart = p + a, previousVal = p, currentVal = c\<rparr>
   \<and> adjustedStart (calculateDelta 300 0 300) = 300
   \<and> percent (calculateDelta 300 0 300) = 0"
  by (simp add: calculateDelta_def Let_def)

subsection \<open>Projected annual return\<close>

text \<open>
  C9. For \<open>monthsPassed > 0\<close>, \<open>calculateProjectedAnnual\<close> returns
  \<open>(1 + ytd) powr (12 / monthsPassed) - 1\<close> when \<open>1 + ytd > 0\<close> and exactly \<open>-1\<close>
  when \<open>1 + ytd \<le> 0\<close>; \<open>calculateProjectedAnnual (-1.5) 6 = -1\<close>.
\<close>

theorem calculateProjectedAnnual_guard:
  "(0 < monthsPassed \<longrightarrow>
      calculateProjectedAnnual ytd monthsPassed =
        (if 0 < 1 + ytd then (1 + ytd) powr (12 / monthsPassed) - 1 else - 1))
   \<and> calculateProjectedAnnual (- (3 / 2)) 6 = - 1"
  by (simp add: calculateProjectedAnnual_def Let_def)

theorem calculateProjectedAnnual_guard_witness:
  "(0 :: real) < 12 \<and> calculateProjectedAnnual 3 12 = 3
   \<and> (0 :: real) < 6 \<and> calculateProjectedAnnual (- 2) 6 = - 1"
  using calculateProjectedAnnual_guard [of 12 3] calculateProjectedAnnual_guard [of 6 "- 2"]
  by simp

subsection \<open>Objects\<close>

lemma obj_set_fresh: "k \<notin> set (obj_keys m) \<Longrightarrow> obj_set k v m = m @ [(k, v)]"
  by (induction m) (auto simp: obj_keys_def)

lemma map_of_obj_set: "map_of (obj_set k v m) = (map_of m)(k \<mapsto> v)"
  by (induction m) (auto simp: fun_eq_iff)

lemma obj_keys_obj_set:
  "set (obj_keys (obj_set k v m)) = insert k (set (obj_keys m))"
proof -
  have "set (obj_keys (obj_set k v m)) = dom (map_of (obj_set k v m))"
    by (simp add: obj_keys_def dom_map_of_conv_image_fst)
  also have "\<dots> = insert k (dom (map_of m))"
    by (simp add: map_of_obj_set)
  finally show ?thesis
    by (simp add: obj_keys_def dom_map_of_conv_image_fst)
qed

lemma distinct_obj_set:
  "distinct (obj_keys m) \<Longrightarrow> distinct (obj_keys (obj_set k v m))"
proof (induction m)
  case Nil
  show ?case by (simp add: obj_keys_def)
next
  case (Cons p m)
  then show ?case
    using obj_keys_obj_set [of k v m] by (cases p) (auto simp: obj_keys_def)
qed

subsection \<open>Doubles\<close>

lemma isWhole_Ints: "isWhole x \<longleftrightarrow> x \<in> \<int>"
  by (auto simp: isWhole_def Ints_def)

lemma roundTiesEven_int: "m \<in> \<int> \<Longrightarrow> of_int (roundTiesEven m) = m"
  by (auto simp: roundTiesEven_def Ints_def)

lemma scaleUp_int:
  "m \<in> \<int> \<Longrightarrow> scaleUp m e = (m', e') \<Longrightarrow> m' \<in> \<int> \<and> m' * 2 powi e' = m * 2 powi e"
proof (induction m e rule: scaleUp.induct)
  case (1 m e)
  show ?case
  proof (cases "m < 2 ^ 52 \<and> e > - 1074")
    case True
    then have "scaleUp (m * 2) (e - 1) = (m', e')"
      using "1.prems"(2) by (simp add: scaleUp.simps [of m e])
    moreover have "m * 2 \<in> \<int>" using "1.prems"(1) by simp
    ultimately have "m' \<in> \<int> \<and> m' * 2 powi e' = (m * 2) * 2 powi (e - 1)"
      using "1.IH" True by blast
    then show ?thesis by (simp add: power_int_diff)
  next
    case False
    then have "scaleUp m e = (m, e)" by (subst scaleUp.simps) auto
    with "1.prems" show ?thesis by simp
  qed
qed

text \<open>A whole number of absolute value at most \<open>2 ^ 53\<close> is a double.\<close>

lemma toDouble_int:
  assumes "x \<in> \<int>" and "\<bar>x\<bar> \<le> 2 ^ 53"
  shows "toDouble x = x"
proof (cases "x = 0")
  case True
  then show ?thesis by (simp add: toDouble_def)
next
  case False
  obtain m1 e1 where d: "scaleDown \<bar>x\<bar> 0 = (m1, e1)" by (cases "scaleDown \<bar>x\<bar> 0")
  obtain m e where u: "scaleUp m1 e1 = (m, e)" by (cases "scaleUp m1 e1")
  have down: "m1 \<in> \<int> \<and> m1 * 2 powi e1 = \<bar>x\<bar>"
  proof (cases "\<bar>x\<bar> = 2 ^ 53")
    case True
    then have "scaleDown \<bar>x\<bar> 0 = (2 ^ 52, 1)"
      by (simp add: scaleDown.simps)
    with d True show ?thesis by auto
  next
    case False
    with assms(2) have "\<bar>x\<bar> < 2 ^ 53" by simp
    then have "scaleDown \<bar>x\<bar> 0 = (\<bar>x\<bar>, 0)"
      by (simp add: scaleDown.simps)
    with d assms(1) show ?thesis by auto
  qed
  then have up: "m \<in> \<int> \<and> m * 2 powi e = \<bar>x\<bar>"
    using scaleUp_int [OF _ u] by simp
  have "toDouble x = sgn x * (of_int (roundTiesEven m) * 2 powi e)"
    using False d u by (simp add: toDouble_def)
  also have "\<dots> = sgn x * \<bar>x\<bar>"
    using up by (simp add: roundTiesEven_int)
  finally show ?thesis by (simp add: sgn_mult_abs)
qed

lemma dadd_int: "x \<in> \<int> \<Longrightarrow> y \<in> \<int> \<Longrightarrow> \<bar>x + y\<bar> \<le> 2 ^ 53 \<Longrightarrow> dadd x y = x + y"
  by (simp add: dadd_def toDouble_int)

lemma dsub_int: "x \<in> \<int> \<Longrightarrow> y \<in> \<int> \<Longrightarrow> \<bar>x - y\<bar> \<le> 2 ^ 53 \<Longrightarrow> dsub x y = x - y"
  by (simp add: dsub_def toDouble_int)

lemma sum_list_abs_nonneg: "0 \<le> sum_list (map abs (xs :: real list))"
  by (rule sum_list_nonneg) auto

lemma foldl_dadd_exact:
  "list_all (\<lambda>x. x \<in> \<int>) xs \<Longrightarrow> a \<in> \<int> \<Longrightarrow> \<bar>a\<bar> + sum_list (map abs xs) \<le> 2 ^ 53 \<Longrightarrow>
   foldl dadd a xs = a + sum_list xs"
proof (induction xs arbitrary: a)
  case Nil
  show ?case by simp
next
  case (Cons x xs)
  have "\<bar>a + x\<bar> \<le> 2 ^ 53"
    using Cons.prems(3) sum_list_abs_nonneg [of xs] by simp
  then have e: "dadd a x = a + x" using Cons.prems by (simp add: dadd_int)
  have "\<bar>a + x\<bar> + sum_list (map abs xs) \<le> 2 ^ 53" using Cons.prems(3) by simp
  then have "foldl dadd (a + x) xs = (a + x) + sum_list xs"
    using Cons.IH [of "a + x"] Cons.prems by simp
  then show ?case by (simp add: e)
qed

text \<open>The equations that evaluate a sum or a difference of two given doubles.\<close>

lemmas double_eval =
  dadd_def dsub_def toDouble_def scaleDown.simps scaleUp.simps roundTiesEven_def Let_def

text \<open>Two sums that round: \<open>2 ^ 53 + 1\<close> and \<open>2 ^ 53 + 3\<close> lie halfway between doubles.\<close>

lemma dadd_large_1: "dadd 9007199254740992 1 = 9007199254740992"
  by (simp add: dadd_def toDouble_def scaleDown.simps scaleUp.simps roundTiesEven_def Let_def)

lemma dadd_large_3: "dadd 9007199254740992 3 = 9007199254740996"
  by (simp add: dadd_def toDouble_def scaleDown.simps scaleUp.simps roundTiesEven_def Let_def)

subsection \<open>Snapshot builder\<close>

lemma foldl_itemStep_total:
  "total_cd (fst (foldl (itemStep cat) (cd, am) its)) = foldl dadd (total_cd cd) (map val its)"
  by (induction its arbitrary: cd am) (simp_all add: Let_def)

lemma catBody_total:
  "total_s (catBody snap cat its) = dadd (total_s snap) (foldl dadd 0 (map val its))"
  by (simp add: catBody_def Let_def case_prod_beta foldl_itemStep_total)

lemma catBody_categories:
  "\<exists>cd. categories (catBody snap cat its) = assignProp (id_cat cat) cd (categories snap)
        \<and> total_cd cd = foldl dadd 0 (map val its)"
proof -
  let ?cd0 = "\<lparr>id_cd = id_cat cat, title_cd = title cat, color_cd = color cat,
               total_cd = 0, items_cd = []\<rparr>"
  let ?cd = "fst (foldl (itemStep cat) (?cd0, assetMap snap) its)"
  have "categories (catBody snap cat its) = assignProp (id_cat cat) ?cd (categories snap)"
    by (simp add: catBody_def Let_def case_prod_beta)
  moreover have "total_cd ?cd = foldl dadd 0 (map val its)"
    by (simp add: foldl_itemStep_total)
  ultimately show ?thesis by blast
qed

lemma buildLoop_ok:
  "list_all hasItems cats \<Longrightarrow>
   buildLoop snap cats = Inr (foldl (\<lambda>s c. catBody s c (itemsOf c)) snap cats)"
  by (induction cats arbitrary: snap) (auto simp: catStep_def hasItems_def itemsOf_def)

lemma buildLoop_error:
  "\<not> list_all hasItems cats \<Longrightarrow> buildLoop snap cats = Inl TypeError"
  by (induction cats arbitrary: snap) (auto simp: catStep_def hasItems_def split: option.split)

lemma foldl_catBody_total:
  "total_s (foldl (\<lambda>s c. catBody s c (itemsOf c)) snap cats)
     = foldl dadd (total_s snap) (map categoryTotal cats)"
  by (induction cats arbitrary: snap) (simp_all add: catBody_total categoryTotal_def)

lemma categoryTotalSum_catBody:
  assumes "id_cat cat \<notin> set (obj_keys (categories snap))" and "id_cat cat \<noteq> ''__proto__''"
  shows "categoryTotalSum (catBody snap cat (itemsOf cat))
           = categoryTotalSum snap + categoryTotal cat"
proof -
  obtain cd where "categories (catBody snap cat (itemsOf cat))
                     = assignProp (id_cat cat) cd (categories snap)"
    and "total_cd cd = foldl dadd 0 (map val (itemsOf cat))"
    using catBody_categories by blast
  then show ?thesis
    using assms by (simp add: categoryTotalSum_def assignProp_def obj_set_fresh categoryTotal_def)
qed

lemma keys_catBody:
  "set (obj_keys (categories (catBody snap cat its)))
     \<subseteq> insert (id_cat cat) (set (obj_keys (categories snap)))"
proof -
  obtain cd where "categories (catBody snap cat its)
                     = assignProp (id_cat cat) cd (categories snap)"
    using catBody_categories by blast
  then show ?thesis by (auto simp: assignProp_def obj_keys_obj_set)
qed

lemma foldl_catBody_categoryTotalSum:
  "distinct (map id_cat cats) \<Longrightarrow> ''__proto__'' \<notin> set (map id_cat cats) \<Longrightarrow>
   set (map id_cat cats) \<inter> set (obj_keys (categories snap)) = {} \<Longrightarrow>
   categoryTotalSum (foldl (\<lambda>s c. catBody s c (itemsOf c)) snap cats)
     = categoryTotalSum snap + sum_list (map categoryTotal cats)"
proof (induction cats arbitrary: snap)
  case Nil
  show ?case by simp
next
  case (Cons c cs)
  have fresh: "id_cat c \<notin> set (obj_keys (categories snap))" and np: "id_cat c \<noteq> ''__proto__''"
    using Cons.prems by auto
  have disj: "set (map id_cat cs) \<inter> set (obj_keys (categories (catBody snap c (itemsOf c)))) = {}"
  proof -
    have "id_cat x \<notin> set (obj_keys (categories (catBody snap c (itemsOf c))))"
      if "x \<in> set cs" for x
    proof -
      from Cons.prems(1) have "id_cat c \<notin> id_cat ` set cs" by simp
      with that have "id_cat x \<noteq> id_cat c" by (metis imageI)
      moreover from that Cons.prems(3) have "id_cat x \<notin> set (obj_keys (categories snap))"
        by auto
      ultimately show ?thesis
        using keys_catBody [of snap c "itemsOf c"] by auto
    qed
    then show ?thesis by auto
  qed
  have "categoryTotalSum (foldl (\<lambda>s c. catBody s c (itemsOf c)) (catBody snap c (itemsOf c)) cs)
        = categoryTotalSum (catBody snap c (itemsOf c)) + sum_list (map categoryTotal cs)"
    using Cons.IH [OF _ _ disj] Cons.prems by simp
  then show ?case
    by (simp add: categoryTotalSum_catBody [OF fresh np])
qed

text \<open>When the values are whole and small enough, no addition of the builder rounds.\<close>

lemma absValueSum_Cons:
  "absValueSum (c # cs) = sum_list (map (\<lambda>i. \<bar>val i\<bar>) (itemsOf c)) + absValueSum cs"
  by (simp add: absValueSum_def allItems_def)

lemma assetValueSum_Cons:
  "assetValueSum (c # cs) = sum_list (map val (itemsOf c)) + assetValueSum cs"
  by (simp add: assetValueSum_def allItems_def)

lemma absValueSum_nonneg: "0 \<le> absValueSum cats"
  unfolding absValueSum_def by (rule sum_list_nonneg) auto

lemma categoryTotal_exact:
  assumes "list_all wholeValue (itemsOf c)"
    and "sum_list (map (\<lambda>i. \<bar>val i\<bar>) (itemsOf c)) \<le> 2 ^ 53"
  shows "categoryTotal c = sum_list (map val (itemsOf c))"
proof -
  have "list_all (\<lambda>x. x \<in> \<int>) (map val (itemsOf c))"
    using assms(1) by (simp add: list_all_iff wholeValue_def isWhole_Ints)
  moreover have "map abs (map val (itemsOf c)) = map (\<lambda>i. \<bar>val i\<bar>) (itemsOf c)"
    by simp
  ultimately have "foldl dadd 0 (map val (itemsOf c)) = 0 + sum_list (map val (itemsOf c))"
    using assms(2) by (intro foldl_dadd_exact) (simp_all add: comp_def)
  then show ?thesis by (simp add: categoryTotal_def)
qed

lemma Ints_sum_list: "list_all (\<lambda>x. x \<in> \<int>) xs \<Longrightarrow> sum_list xs \<in> (\<int> :: real set)"
  by (induction xs) simp_all

lemma foldl_categoryTotal_exact:
  "list_all wholeValue (allItems cats) \<Longrightarrow> a \<in> \<int> \<Longrightarrow> \<bar>a\<bar> + absValueSum cats \<le> 2 ^ 53 \<Longrightarrow>
   foldl dadd a (map categoryTotal cats) = a + assetValueSum cats
   \<and> sum_list (map categoryTotal cats) = assetValueSum cats"
proof (induction cats arbitrary: a)
  case Nil
  show ?case by (simp add: assetValueSum_def allItems_def)
next
  case (Cons c cs)
  let ?s = "sum_list (map val (itemsOf c))"
  let ?b = "sum_list (map (\<lambda>i. \<bar>val i\<bar>) (itemsOf c))"
  have whole_c: "list_all wholeValue (itemsOf c)" and whole_cs: "list_all wholeValue (allItems cs)"
    using Cons.prems(1) by (simp_all add: allItems_def)
  have bound: "\<bar>a\<bar> + ?b + absValueSum cs \<le> 2 ^ 53"
    using Cons.prems(3) by (simp add: absValueSum_Cons)
  have b_small: "?b \<le> 2 ^ 53"
    using bound absValueSum_nonneg [of cs] by linarith
  have tot: "categoryTotal c = ?s"
    using whole_c b_small by (rule categoryTotal_exact)
  have s_int: "?s \<in> \<int>"
    using whole_c by (intro Ints_sum_list) (simp add: list_all_iff wholeValue_def isWhole_Ints)
  have s_abs: "\<bar>?s\<bar> \<le> ?b"
    using sum_list_abs [of "map val (itemsOf c)"] by (simp add: comp_def)
  have "\<bar>a + ?s\<bar> \<le> 2 ^ 53"
    using bound s_abs absValueSum_nonneg [of cs] by linarith
  then have step: "dadd a ?s = a + ?s"
    using Cons.prems(2) s_int by (simp add: dadd_int)
  have "\<bar>a + ?s\<bar> + absValueSum cs \<le> 2 ^ 53"
    using bound s_abs by linarith
  then have "foldl dadd (a + ?s) (map categoryTotal cs) = (a + ?s) + assetValueSum cs
             \<and> sum_list (map categoryTotal cs) = assetValueSum cs"
    using Cons.IH [of "a + ?s"] whole_cs Cons.prems(2) s_int by simp
  then show ?case
    by (simp add: tot step assetValueSum_Cons)
qed

text \<open>
  C1 (amended). For a document whose portfolio is a list of categories that all have an
  item list, \<open>buildSnapshot\<close> returns a snapshot whose total is the sum of the category
  totals added as doubles in document order, each category total being the values of
  the category added as doubles in order. When all values are whole numbers and their
  absolute values sum to at most \<open>2 ^ 53\<close>, no addition rounds: the total is the exact
  sum of the values of all asset entries, and it is the sum of the totals of the category
  records of the snapshot provided the category identifiers are pairwise distinct and
  none is \<open>__proto__\<close>. A null document and a document whose portfolio is missing give
  the all-zero snapshot with empty maps; a portfolio that is not a list, and a list with
  a category that has no item list, raise \<open>TypeError\<close>.
\<close>

theorem buildSnapshot_total:
  "(list_all hasItems cats \<longrightarrow>
      (\<exists>snap. buildSnapshot (Some \<lparr>portfolio = Categories cats\<rparr>) = Inr snap
         \<and> total_s snap = foldl dadd 0 (map categoryTotal cats)
         \<and> (list_all wholeValue (allItems cats) \<and> absValueSum cats \<le> 2 ^ 53 \<longrightarrow>
              total_s snap = assetValueSum cats
              \<and> (distinct (map id_cat cats) \<and> ''__proto__'' \<notin> set (map id_cat cats) \<longrightarrow>
                   categoryTotalSum snap = total_s snap))))
   \<and> (\<not> list_all hasItems cats \<longrightarrow>
        buildSnapshot (Some \<lparr>portfolio = Categories cats\<rparr>) = Inl TypeError)
   \<and> buildSnapshot None = Inr \<lparr>total_s = 0, categories = [], assetMap = []\<rparr>
   \<and> buildSnapshot (Some \<lparr>portfolio = NoPortfolio\<rparr>)
       = Inr \<lparr>total_s = 0, categories = [], assetMap = []\<rparr>
   \<and> buildSnapshot (Some \<lparr>portfolio = NotAList\<rparr>) = Inl TypeError"
proof -
  let ?snap = "foldl (\<lambda>s c. catBody s c (itemsOf c)) emptySnapshot cats"
  have ok: "buildSnapshot (Some \<lparr>portfolio = Categories cats\<rparr>) = Inr ?snap"
    if "list_all hasItems cats"
    using that by (simp add: buildSnapshot_def buildLoop_ok)
  have t: "total_s ?snap = foldl dadd 0 (map categoryTotal cats)"
    by (simp add: foldl_catBody_total emptySnapshot_def)
  have exact: "foldl dadd 0 (map categoryTotal cats) = assetValueSum cats
               \<and> sum_list (map categoryTotal cats) = assetValueSum cats"
    if "list_all wholeValue (allItems cats)" "absValueSum cats \<le> 2 ^ 53"
    using foldl_categoryTotal_exact [OF that(1), of 0] that(2) by simp
  have c: "categoryTotalSum ?snap = sum_list (map categoryTotal cats)"
    if "distinct (map id_cat cats)" "''__proto__'' \<notin> set (map id_cat cats)"
    using foldl_catBody_categoryTotalSum [OF that, of emptySnapshot]
    by (simp add: emptySnapshot_def obj_keys_def categoryTotalSum_def)
  have err: "buildSnapshot (Some \<lparr>portfolio = Categories cats\<rparr>) = Inl TypeError"
    if "\<not> list_all hasItems cats"
    using that by (simp add: buildSnapshot_def buildLoop_error)
  show ?thesis
    using ok t exact c err by (simp add: buildSnapshot_def emptySnapshot_def)
qed

theorem buildSnapshot_total_witness:
  "list_all hasItems
      [\<lparr>id_cat = ''crypto'', title = ''Crypto'', color = ''#f00'',
        items = Some [raw_item ''BTC'' ''Ledger'' 1, raw_item ''ETH'' ''Ledger'' 2]\<rparr>,
       \<lparr>id_cat = ''cash'', title = ''Cash'', color = ''#0f0'',
        items = Some [raw_item ''USD'' ''Bank'' 3]\<rparr>]
   \<and> list_all wholeValue (allItems
      [\<lparr>id_cat = ''crypto'', title = ''Crypto'', color = ''#f00'',
        items = Some [raw_item ''BTC'' ''Ledger'' 1, raw_item ''ETH'' ''Ledger'' 2]\<rparr>,
       \<lparr>id_cat = ''cash'', title = ''Cash'', color = ''#0f0'',
        items = Some [raw_item ''USD'' ''Bank'' 3]\<rparr>])
   \<and> absValueSum
      [\<lparr>id_cat = ''crypto'', title = ''Crypto'', color = ''#f00'',
        items = Some [raw_item ''BTC'' ''Ledger'' 1, raw_item ''ETH'' ''Ledger'' 2]\<rparr>,
       \<lparr>id_cat = ''cash'', title = ''Cash'', color = ''#0f0'',
        items = Some [raw_item ''USD'' ''Bank'' 3]\<rparr>] = 6
   \<and> distinct [''crypto'', ''cash'']
   \<and> (\<exists>snap. buildSnapshot (Some \<lparr>portfolio = Categories
      [\<lparr>id_cat = ''crypto'', title = ''Crypto'', color = ''#f00'',
        items = Some [raw_item ''BTC'' ''Ledger'' 1, raw_item ''ETH'' ''Ledger'' 2]\<rparr>,
       \<lparr>id_cat = ''cash'', title = ''Cash'', color = ''#0f0'',
        items = Some [raw_item ''USD'' ''Bank'' 3]\<rparr>]\<rparr>) = Inr snap
        \<and> total_s snap = 6 \<and> categoryTotalSum snap = 6)"
  using buildSnapshot_total [of
      "[\<lparr>id_cat = ''crypto'', title = ''Crypto'', color = ''#f00'',
        items = Some [raw_item ''BTC'' ''Ledger'' 1, raw_item ''ETH'' ''Ledger'' 2]\<rparr>,
       \<lparr>id_cat = ''cash'', title = ''Cash'', color = ''#0f0'',
        items = Some [raw_item ''USD'' ''Bank'' 3]\<rparr>]"]
  by (auto simp: hasItems_def wholeValue_def isWhole_def absValueSum_def assetValueSum_def
      allItems_def itemsOf_def raw_item_def)

lemma catBody_categories_eq:
  "categories (catBody snap cat its) =
     assignProp (id_cat cat)
       (fst (foldl (itemStep cat)
          (\<lparr>id_cd = id_cat cat, title_cd = title cat, color_cd = color cat,
            total_cd = 0, items_cd = []\<rparr>, assetMap snap) its))
       (categories snap)"
  by (simp add: catBody_def Let_def case_prod_beta)

text \<open>
  Where the total is not the sum of the category totals or of the asset values. Two
  categories with one identifier share one record of \<open>snapshot.categories\<close> (the later
  one replaces the earlier), while both are added to the total. The values \<open>2 ^ 53\<close>, 1
  and 1 add up to \<open>2 ^ 53\<close> in doubles. A category with the identifier \<open>__proto__\<close> leaves
  no record. A portfolio that is not a list raises.
\<close>

theorem buildSnapshot_total_fails:
  "map_sum id total_s (buildSnapshot (Some twinDocument)) = Inr 3
   \<and> map_sum id categoryTotalSum (buildSnapshot (Some twinDocument)) = Inr 2
   \<and> map_sum id total_s (buildSnapshot (Some largeDocument)) = Inr 9007199254740992
   \<and> sum_list [9007199254740992, 1, 1 :: real] = 9007199254740994
   \<and> map_sum id total_s (buildSnapshot (Some protoDocument)) = Inr 7
   \<and> map_sum id categoryTotalSum (buildSnapshot (Some protoDocument)) = Inr 0
   \<and> buildSnapshot (Some \<lparr>portfolio = NotAList\<rparr>) = Inl TypeError"
  by (simp add: buildSnapshot_def twinDocument_def largeDocument_def protoDocument_def
      catStep_def catBody_total catBody_categories_eq foldl_itemStep_total
      categoryTotalSum_def assignProp_def emptySnapshot_def del: foldl.simps)
    (simp add: raw_item_def dadd_int dadd_large_1)

subsection \<open>Total balance\<close>

lemma balanceLoop_ok:
  "list_all hasItems cats \<Longrightarrow>
   balanceLoop tot cats = Inr (foldl dadd tot (map categoryTotal cats))"
  by (induction cats arbitrary: tot)
    (auto simp: hasItems_def categoryTotal_def itemsOf_def foldl_map)

lemma calculateTotalBalance_exact:
  assumes "portfolio d = Categories cats" and "list_all hasItems cats"
    and "list_all wholeValue (allItems cats)" and "absValueSum cats \<le> 2 ^ 53"
  shows "calculateTotalBalance (Some d) = Inr (assetValueSum cats)"
  using assms foldl_categoryTotal_exact [OF assms(3), of 0]
  by (simp add: calculateTotalBalance_def balanceLoop_ok)

subsection \<open>Transfer merger\<close>

lemma val_adjustAsset: "val (adjustAsset amount i) = dadd (val i) amount"
  by (simp add: adjustAsset_def)

lemma val_raw_item: "val (raw_item n s v) = v"
  by (simp add: raw_item_def)

text \<open>One operation adds its amount to one value; whole and small values stay exact.\<close>

lemma applyToItems_exact:
  "list_all wholeValue its \<Longrightarrow> a \<in> \<int> \<Longrightarrow>
   sum_list (map (\<lambda>i. \<bar>val i\<bar>) its) + \<bar>a\<bar> \<le> 2 ^ 53 \<Longrightarrow>
   list_all wholeValue (applyToItems src nm a its)
   \<and> sum_list (map val (applyToItems src nm a its)) = sum_list (map val its) + a
   \<and> sum_list (map (\<lambda>i. \<bar>val i\<bar>) (applyToItems src nm a its))
       \<le> sum_list (map (\<lambda>i. \<bar>val i\<bar>) its) + \<bar>a\<bar>"
proof (induction its)
  case Nil
  then have "dadd 0 a = a" by (simp add: dadd_int)
  with Nil show ?case
    by (simp add: val_adjustAsset val_raw_item wholeValue_def isWhole_Ints)
next
  case (Cons i rest)
  have nn: "0 \<le> sum_list (map (\<lambda>i. \<bar>val i\<bar>) rest)"
    by (rule sum_list_nonneg) auto
  show ?case
  proof (cases "name i = nm \<and> source i = src")
    case True
    have vi: "val i \<in> \<int>" using Cons.prems(1) by (simp add: wholeValue_def isWhole_Ints)
    have "\<bar>val i + a\<bar> \<le> 2 ^ 53" using Cons.prems(3) nn by simp
    then have "dadd (val i) a = val i + a" using vi Cons.prems(2) by (simp add: dadd_int)
    with True Cons.prems vi show ?thesis
      by (simp add: val_adjustAsset wholeValue_def isWhole_Ints)
  next
    case False
    have "sum_list (map (\<lambda>i. \<bar>val i\<bar>) rest) + \<bar>a\<bar> \<le> 2 ^ 53"
      using Cons.prems(3) by simp
    then have "list_all wholeValue (applyToItems src nm a rest)
       \<and> sum_list (map val (applyToItems src nm a rest)) = sum_list (map val rest) + a
       \<and> sum_list (map (\<lambda>i. \<bar>val i\<bar>) (applyToItems src nm a rest))
           \<le> sum_list (map (\<lambda>i. \<bar>val i\<bar>) rest) + \<bar>a\<bar>"
      using Cons.IH Cons.prems by simp
    with False Cons.prems(1) show ?thesis by auto
  qed
qed

lemma applyTransferOperation_exact:
  "list_all hasItems cats \<Longrightarrow> list_all wholeValue (allItems cats) \<Longrightarrow> a \<in> \<int> \<Longrightarrow>
   absValueSum cats + \<bar>a\<bar> \<le> 2 ^ 53 \<Longrightarrow>
   \<exists>cats'. applyTransferOperation cats catId src nm a = Inr cats'
      \<and> list_all hasItems cats' \<and> list_all wholeValue (allItems cats')
      \<and> assetValueSum cats' = assetValueSum cats + a
      \<and> absValueSum cats' \<le> absValueSum cats + \<bar>a\<bar>"
proof (induction cats)
  case Nil
  have "list_all wholeValue (applyToItems src nm a [])
     \<and> sum_list (map val (applyToItems src nm a [])) = a
     \<and> sum_list (map (\<lambda>i. \<bar>val i\<bar>) (applyToItems src nm a [])) \<le> \<bar>a\<bar>"
    using applyToItems_exact [of "[]" a src nm] Nil.prems
    by (simp add: absValueSum_def allItems_def)
  then show ?case
    by (simp add: hasItems_def allItems_def itemsOf_def assetValueSum_def absValueSum_def
        del: applyToItems.simps)
next
  case (Cons c rest)
  obtain its where its: "items c = Some its"
    using Cons.prems(1) by (auto simp: hasItems_def)
  have io: "itemsOf c = its" using its by (simp add: itemsOf_def)
  have whole_c: "list_all wholeValue its" and whole_r: "list_all wholeValue (allItems rest)"
    using Cons.prems(2) io by (simp_all add: allItems_def)
  have bound: "sum_list (map (\<lambda>i. \<bar>val i\<bar>) its) + absValueSum rest + \<bar>a\<bar> \<le> 2 ^ 53"
    using Cons.prems(4) io by (simp add: absValueSum_Cons)
  have nn_c: "0 \<le> sum_list (map (\<lambda>i. \<bar>val i\<bar>) its)"
    by (rule sum_list_nonneg) auto
  show ?case
  proof (cases "id_cat c = catId")
    case True
    have "sum_list (map (\<lambda>i. \<bar>val i\<bar>) its) + \<bar>a\<bar> \<le> 2 ^ 53"
      using bound absValueSum_nonneg [of rest] by linarith
    then have e: "list_all wholeValue (applyToItems src nm a its)
       \<and> sum_list (map val (applyToItems src nm a its)) = sum_list (map val its) + a
       \<and> sum_list (map (\<lambda>i. \<bar>val i\<bar>) (applyToItems src nm a its))
           \<le> sum_list (map (\<lambda>i. \<bar>val i\<bar>) its) + \<bar>a\<bar>"
      using applyToItems_exact [OF whole_c Cons.prems(3)] by simp
    let ?c' = "c\<lparr>items := Some (applyToItems src nm a its)\<rparr>"
    have r: "applyTransferOperation (c # rest) catId src nm a = Inr (?c' # rest)"
      using True its by simp
    have io': "itemsOf ?c' = applyToItems src nm a its" by (simp add: itemsOf_def)
    have "hasItems ?c'" by (simp add: hasItems_def)
    then have "list_all hasItems (?c' # rest)"
      using Cons.prems(1) by simp
    moreover have "list_all wholeValue (allItems (?c' # rest))"
      using e whole_r io' by (simp add: allItems_def)
    moreover have "assetValueSum (?c' # rest) = assetValueSum (c # rest) + a"
      using e io io' by (simp add: assetValueSum_Cons)
    moreover have "absValueSum (?c' # rest) \<le> absValueSum (c # rest) + \<bar>a\<bar>"
      using e io io' by (simp add: absValueSum_Cons)
    ultimately show ?thesis using r by blast
  next
    case False
    have "absValueSum rest + \<bar>a\<bar> \<le> 2 ^ 53" using bound nn_c by linarith
    then obtain rest' where rest': "applyTransferOperation rest catId src nm a = Inr rest'"
      "list_all hasItems rest'" "list_all wholeValue (allItems rest')"
      "assetValueSum rest' = assetValueSum rest + a"
      "absValueSum rest' \<le> absValueSum rest + \<bar>a\<bar>"
      using Cons.IH Cons.prems(1,3) whole_r by auto
    have r: "applyTransferOperation (c # rest) catId src nm a = Inr (c # rest')"
      using False rest'(1) by simp
    have "list_all hasItems (c # rest')"
      using Cons.prems(1) rest'(2) by simp
    moreover have "list_all wholeValue (allItems (c # rest'))"
      using whole_c io rest'(3) by (simp add: allItems_def)
    moreover have "assetValueSum (c # rest') = assetValueSum (c # rest) + a"
      using rest'(4) by (simp add: assetValueSum_Cons)
    moreover have "absValueSum (c # rest') \<le> absValueSum (c # rest) + \<bar>a\<bar>"
      using rest'(5) by (simp add: absValueSum_Cons)
    ultimately show ?thesis using r by blast
  qed
qed

lemma mergeStep_move_exact:
  assumes "isMove t" and "wholeAmount t" and "list_all hasItems cats"
    and "list_all wholeValue (allItems cats)"
    and "absValueSum cats + 2 * \<bar>amountOf t\<bar> \<le> 2 ^ 53"
  shows "\<exists>cats'. mergeStep cats t = (cats', None)
      \<and> list_all hasItems cats' \<and> list_all wholeValue (allItems cats')
      \<and> assetValueSum cats' = assetValueSum cats
      \<and> absValueSum cats' \<le> absValueSum cats + 2 * \<bar>amountOf t\<bar>"
proof -
  obtain fc fs fn tc tsrc tn a where t: "t = Move fc fs fn tc tsrc tn a"
    using assms(1) by (cases t) auto
  have a: "a \<in> \<int>" "- a \<in> \<int>"
    using assms(2) t by (simp_all add: wholeAmount_def isWhole_Ints)
  have b: "absValueSum cats + \<bar>a\<bar> + \<bar>a\<bar> \<le> 2 ^ 53"
    using assms(5) t by simp
  then have "absValueSum cats + \<bar>- a\<bar> \<le> 2 ^ 53" by simp
  then obtain c1 where c1: "applyTransferOperation cats fc fs fn (- a) = Inr c1"
    "list_all hasItems c1" "list_all wholeValue (allItems c1)"
    "assetValueSum c1 = assetValueSum cats + - a"
    "absValueSum c1 \<le> absValueSum cats + \<bar>- a\<bar>"
    using applyTransferOperation_exact [OF assms(3,4) a(2)] by blast
  have "absValueSum c1 + \<bar>a\<bar> \<le> 2 ^ 53" using c1(5) b by simp
  then obtain c2 where c2: "applyTransferOperation c1 tc tsrc tn a = Inr c2"
    "list_all hasItems c2" "list_all wholeValue (allItems c2)"
    "assetValueSum c2 = assetValueSum c1 + a"
    "absValueSum c2 \<le> absValueSum c1 + \<bar>a\<bar>"
    using applyTransferOperation_exact [OF c1(2,3) a(1)] by blast
  have "mergeStep cats t = (c2, None)" using t c1(1) c2(1) by simp
  moreover have "assetValueSum c2 = assetValueSum cats" using c1(4) c2(4) by simp
  moreover have "absValueSum c2 \<le> absValueSum cats + 2 * \<bar>amountOf t\<bar>"
    using c1(5) c2(5) t by simp
  ultimately show ?thesis using c2(2,3) by blast
qed

lemma absAmountSum_nonneg: "0 \<le> absAmountSum ts"
  unfolding absAmountSum_def by (rule sum_list_nonneg) auto

lemma absAmountSum_move:
  "isMove t \<Longrightarrow> absAmountSum (t # ts) = 2 * \<bar>amountOf t\<bar> + absAmountSum ts"
  by (cases t) (simp_all add: absAmountSum_def)

lemma mergeLoop_moves_exact:
  "list_all isMove ts \<Longrightarrow> list_all wholeAmount ts \<Longrightarrow> list_all hasItems cats \<Longrightarrow>
   list_all wholeValue (allItems cats) \<Longrightarrow> absValueSum cats + absAmountSum ts \<le> 2 ^ 53 \<Longrightarrow>
   \<exists>cats'. mergeLoop cats ts = (cats', None)
      \<and> list_all hasItems cats' \<and> list_all wholeValue (allItems cats')
      \<and> assetValueSum cats' = assetValueSum cats
      \<and> absValueSum cats' \<le> absValueSum cats + absAmountSum ts"
proof (induction ts arbitrary: cats)
  case Nil
  then show ?case by (simp add: absAmountSum_def)
next
  case (Cons t ts)
  have mv: "isMove t" and wa: "wholeAmount t" using Cons.prems(1,2) by simp_all
  have split: "absAmountSum (t # ts) = 2 * \<bar>amountOf t\<bar> + absAmountSum ts"
    using mv by (rule absAmountSum_move)
  have "absValueSum cats + 2 * \<bar>amountOf t\<bar> \<le> 2 ^ 53"
    using Cons.prems(5) split absAmountSum_nonneg [of ts] by linarith
  then obtain c1 where c1: "mergeStep cats t = (c1, None)"
    "list_all hasItems c1" "list_all wholeValue (allItems c1)"
    "assetValueSum c1 = assetValueSum cats"
    "absValueSum c1 \<le> absValueSum cats + 2 * \<bar>amountOf t\<bar>"
    using mergeStep_move_exact [OF mv wa Cons.prems(3,4)] by blast
  have "absValueSum c1 + absAmountSum ts \<le> 2 ^ 53"
    using c1(5) Cons.prems(5) split by linarith
  then obtain c2 where c2: "mergeLoop c1 ts = (c2, None)"
    "list_all hasItems c2" "list_all wholeValue (allItems c2)"
    "assetValueSum c2 = assetValueSum c1"
    "absValueSum c2 \<le> absValueSum c1 + absAmountSum ts"
    using Cons.IH [of c1] Cons.prems(1,2) c1(2,3) by auto
  have "mergeLoop cats (t # ts) = (c2, None)" using c1(1) c2(1) by simp
  moreover have "assetValueSum c2 = assetValueSum cats" using c1(4) c2(4) by simp
  moreover have "absValueSum c2 \<le> absValueSum cats + absAmountSum (t # ts)"
    using c1(5) c2(5) split by linarith
  ultimately show ?case using c2(2,3) by blast
qed

lemma mergeTransfers_categories:
  assumes "portfolio (h p) = Categories cats" and "ts \<noteq> []"
    and "mergeLoop cats ts = (cats', None)"
  shows "mergeTransfers h (Some p) (Some ts)
           = (h(p := (h p)\<lparr>portfolio := Categories cats'\<rparr>), Inr (Some p))"
  using assms by (simp add: mergeTransfers_def)

text \<open>
  C4 (amended). Take a document whose portfolio is a list of categories that all have an
  item list and whose values are whole numbers, and a transfer list of moves with
  whole-number amounts, such that the absolute values of the document plus twice the
  absolute amounts add up to at most \<open>2 ^ 53\<close>. Then no addition rounds: every move
  leaves the sum of all asset values as it was, \<open>mergeTransfers\<close> returns the document,
  and \<open>calculateTotalBalance\<close> of the merged document is \<open>calculateTotalBalance\<close> of the
  original one, the exact sum of its values. A null document and a document with no
  portfolio are returned as they are.
\<close>

theorem move_total_unchanged:
  "(isMove t \<and> wholeAmount t \<and> list_all hasItems cats \<and> list_all wholeValue (allItems cats)
      \<and> absValueSum cats + 2 * \<bar>amountOf t\<bar> \<le> 2 ^ 53 \<longrightarrow>
      (\<exists>cats'. mergeStep cats t = (cats', None) \<and> assetValueSum cats' = assetValueSum cats))
   \<and> (portfolio (h p) = Categories cats \<and> list_all hasItems cats
        \<and> list_all wholeValue (allItems cats) \<and> list_all isMove ts \<and> list_all wholeAmount ts
        \<and> absValueSum cats + absAmountSum ts \<le> 2 ^ 53 \<longrightarrow>
        snd (mergeTransfers h (Some p) (Some ts)) = Inr (Some p)
        \<and> calculateTotalBalance (Some (fst (mergeTransfers h (Some p) (Some ts)) p))
            = calculateTotalBalance (Some (h p))
        \<and> calculateTotalBalance (Some (h p)) = Inr (assetValueSum cats))
   \<and> (portfolio (h p) = NoPortfolio \<longrightarrow>
        mergeTransfers h (Some p) (Some ts) = (h, Inr (Some p)))
   \<and> mergeTransfers h None (Some ts) = (h, Inr None)"
proof -
  have one: "\<exists>cats'. mergeStep cats t = (cats', None) \<and> assetValueSum cats' = assetValueSum cats"
    if "isMove t" "wholeAmount t" "list_all hasItems cats" "list_all wholeValue (allItems cats)"
       "absValueSum cats + 2 * \<bar>amountOf t\<bar> \<le> 2 ^ 53"
    using mergeStep_move_exact [OF that] by blast
  have all: "snd (mergeTransfers h (Some p) (Some ts)) = Inr (Some p)
        \<and> calculateTotalBalance (Some (fst (mergeTransfers h (Some p) (Some ts)) p))
            = calculateTotalBalance (Some (h p))
        \<and> calculateTotalBalance (Some (h p)) = Inr (assetValueSum cats)"
    if a: "portfolio (h p) = Categories cats" "list_all hasItems cats"
       "list_all wholeValue (allItems cats)" "list_all isMove ts" "list_all wholeAmount ts"
       "absValueSum cats + absAmountSum ts \<le> 2 ^ 53"
  proof -
    have small: "absValueSum cats \<le> 2 ^ 53"
      using a(6) absAmountSum_nonneg [of ts] by linarith
    have before: "calculateTotalBalance (Some (h p)) = Inr (assetValueSum cats)"
      using a(1,2,3) small by (rule calculateTotalBalance_exact)
    show ?thesis
    proof (cases "ts = []")
      case True
      then show ?thesis using before by (simp add: mergeTransfers_def)
    next
      case False
      obtain cats' where m: "mergeLoop cats ts = (cats', None)"
        "list_all hasItems cats'" "list_all wholeValue (allItems cats')"
        "assetValueSum cats' = assetValueSum cats"
        "absValueSum cats' \<le> absValueSum cats + absAmountSum ts"
        using mergeLoop_moves_exact [OF a(4,5,2,3,6)] by blast
      have r: "mergeTransfers h (Some p) (Some ts)
                 = (h(p := (h p)\<lparr>portfolio := Categories cats'\<rparr>), Inr (Some p))"
        using a(1) False m(1) by (rule mergeTransfers_categories)
      have "absValueSum cats' \<le> 2 ^ 53" using m(5) a(6) by linarith
      then have "calculateTotalBalance (Some ((h p)\<lparr>portfolio := Categories cats'\<rparr>))
                   = Inr (assetValueSum cats')"
        using m(2,3) by (intro calculateTotalBalance_exact) simp_all
      then show ?thesis using r before m(4) by simp
    qed
  qed
  have none: "portfolio (h p) = NoPortfolio \<longrightarrow>
        mergeTransfers h (Some p) (Some ts) = (h, Inr (Some p))"
    by (simp add: mergeTransfers_def)
  have null: "mergeTransfers h None (Some ts) = (h, Inr None)"
    by (simp add: mergeTransfers_def)
  show ?thesis
    using one all none null by blast
qed

theorem move_total_unchanged_witness:
  "isMove (Move ''crypto'' ''Ledger'' ''BTC'' ''cash'' ''Bank'' ''USD'' 40)
   \<and> list_all isMove [Move ''crypto'' ''Ledger'' ''BTC'' ''cash'' ''Bank'' ''USD'' 40]
   \<and> list_all wholeAmount [Move ''crypto'' ''Ledger'' ''BTC'' ''cash'' ''Bank'' ''USD'' 40]
   \<and> absAmountSum [Move ''crypto'' ''Ledger'' ''BTC'' ''cash'' ''Bank'' ''USD'' 40] = 80
   \<and> portfolio (oneStore 0) =
       Categories [\<lparr>id_cat = ''crypto'', title = ''Crypto'', color = ''#f00'',
                    items = Some [raw_item ''BTC'' ''Ledger'' 100]\<rparr>]
   \<and> snd (mergeTransfers oneStore (Some 0)
            (Some [Move ''crypto'' ''Ledger'' ''BTC'' ''cash'' ''Bank'' ''USD'' 40]))
       = Inr (Some 0)
   \<and> calculateTotalBalance
        (Some (fst (mergeTransfers oneStore (Some 0)
                  (Some [Move ''crypto'' ''Ledger'' ''BTC'' ''cash'' ''Bank'' ''USD'' 40])) 0))
      = Inr 100
   \<and> calculateTotalBalance (Some (oneStore 0)) = Inr 100"
  using move_total_unchanged
    [of "Move ''crypto'' ''Ledger'' ''BTC'' ''cash'' ''Bank'' ''USD'' 40"
        "[\<lparr>id_cat = ''crypto'', title = ''Crypto'', color = ''#f00'',
           items = Some [raw_item ''BTC'' ''Ledger'' 100]\<rparr>]"
        oneStore 0
        "[Move ''crypto'' ''Ledger'' ''BTC'' ''cash'' ''Bank'' ''USD'' 40]"]
  by (simp add: oneStore_def oneDocument_def wholeAmount_def wholeValue_def isWhole_def
      hasItems_def absAmountSum_def absValueSum_def assetValueSum_def allItems_def itemsOf_def
      raw_item_def)

text \<open>
  Moving 1 from an asset of 3 to an asset of \<open>2 ^ 53\<close> takes the total from
  \<open>2 ^ 53 + 4\<close> to \<open>2 ^ 53 + 2\<close>; moving 0.2 between two assets of 0.1 takes it from 0.2
  (\<open>3602879701896397 / 2 ^ 54\<close>) to the next double (\<open>7205759403792795 / 2 ^ 55\<close>).
\<close>

theorem move_changes_total:
  "calculateTotalBalance (Some (unevenStore 0)) = Inr 9007199254740996
   \<and> calculateTotalBalance
        (Some (fst (mergeTransfers unevenStore (Some 0)
                  (Some [Move ''cash'' ''Bank'' ''USD'' ''crypto'' ''Ledger'' ''BTC'' 1])) 0))
      = Inr 9007199254740994
   \<and> calculateTotalBalance (Some (tenthsStore 0)) = Inr (3602879701896397 / 2 ^ 54)
   \<and> calculateTotalBalance
        (Some (fst (mergeTransfers tenthsStore (Some 0)
                  (Some [Move ''cash'' ''Bank'' ''USD'' ''cash'' ''Bank'' ''EUR''
                           (3602879701896397 / 2 ^ 54)])) 0))
      = Inr (7205759403792795 / 2 ^ 55)
   \<and> calculateTotalBalance
        (Some (fst (mergeTransfers unevenStore (Some 0)
                  (Some [Move ''cash'' ''Bank'' ''USD'' ''crypto'' ''Ledger'' ''BTC'' 1])) 0))
      \<noteq> calculateTotalBalance (Some (unevenStore 0))"
  by (simp add: calculateTotalBalance_def mergeTransfers_def unevenStore_def unevenDocument_def
      tenthsStore_def tenthsDocument_def raw_item_def adjustAsset_def double_eval)















subsection \<open>Asset keys\<close>

lemma key_btc: "getAssetKey ''crypto'' ''Ledger'' ''BTC'' = ''crypto_ledger_btc''"
  by (simp add: getAssetKey_def toLowerCase_def toLowerChar_def isSpace_def)

subsection \<open>Adjustment aggregator\<close>

lemma list_all_obj_set: "P (k, v) \<Longrightarrow> list_all P m \<Longrightarrow> list_all P (obj_set k v m)"
  by (induction m) auto

lemma list_all_assignProp: "P (k, v) \<Longrightarrow> list_all P m \<Longrightarrow> list_all P (assignProp k v m)"
  by (simp add: assignProp_def list_all_obj_set)

lemma balanced_mono: "b \<le> b' \<Longrightarrow> balanced b e \<Longrightarrow> balanced b' e"
  by (auto simp: balanced_def)

lemma list_all_balanced_mono: "b \<le> b' \<Longrightarrow> list_all (balanced b) m \<Longrightarrow> list_all (balanced b') m"
  by (induction m) (auto intro: balanced_mono)

lemma entryOf_balanced:
  assumes "0 \<le> b" and "list_all (balanced b) m"
  shows "balanced b (k, entryOf m k)"
proof (cases "map_of m k")
  case None
  then show ?thesis using assms(1) by (simp add: entryOf_def balanced_def isWhole_def)
next
  case (Some a)
  then have "(k, a) \<in> set m" by (rule map_of_SomeD)
  with assms(2) have "balanced b (k, a)" by (simp add: list_all_iff)
  with Some show ?thesis by (auto simp: entryOf_def balanced_def)
qed

lemma addDeposit_balanced:
  assumes "0 \<le> b" and "list_all (balanced b) m" and "a \<in> \<int>" and "b + \<bar>a\<bar> \<le> 2 ^ 53"
  shows "list_all (balanced (b + \<bar>a\<bar>)) (addDeposit k a m)"
proof -
  obtain D W N where E: "entryOf m k = \<lparr>deposits = D, withdraws = W, net = N\<rparr>"
    by (cases "entryOf m k") auto
  have "balanced b (k, entryOf m k)" using assms(1,2) by (rule entryOf_balanced)
  then have ints: "D \<in> \<int>" "W \<in> \<int>" "N \<in> \<int>"
    and bounds: "\<bar>D\<bar> \<le> b" "\<bar>W\<bar> \<le> b" "\<bar>N\<bar> \<le> b"
    and eq: "N = D - W"
    by (auto simp: E balanced_def isWhole_Ints)
  have d: "dadd D a = D + a"
    using ints(1) assms(3,4) bounds(1) by (intro dadd_int) auto
  have n: "dadd N a = N + a"
    using ints(3) assms(3,4) bounds(3) by (intro dadd_int) auto
  have "balanced (b + \<bar>a\<bar>) (k, \<lparr>deposits = D + a, withdraws = W, net = N + a\<rparr>)"
    using ints bounds eq assms(3) by (auto simp: balanced_def isWhole_Ints)
  moreover have "list_all (balanced (b + \<bar>a\<bar>)) m"
    using assms(2) by (rule list_all_balanced_mono [rotated]) simp
  ultimately show ?thesis
    by (simp add: addDeposit_def Let_def list_all_assignProp E d n)
qed

lemma addWithdraw_balanced:
  assumes "0 \<le> b" and "list_all (balanced b) m" and "a \<in> \<int>" and "b + \<bar>a\<bar> \<le> 2 ^ 53"
  shows "list_all (balanced (b + \<bar>a\<bar>)) (addWithdraw k a m)"
proof -
  obtain D W N where E: "entryOf m k = \<lparr>deposits = D, withdraws = W, net = N\<rparr>"
    by (cases "entryOf m k") auto
  have "balanced b (k, entryOf m k)" using assms(1,2) by (rule entryOf_balanced)
  then have ints: "D \<in> \<int>" "W \<in> \<int>" "N \<in> \<int>"
    and bounds: "\<bar>D\<bar> \<le> b" "\<bar>W\<bar> \<le> b" "\<bar>N\<bar> \<le> b"
    and eq: "N = D - W"
    by (auto simp: E balanced_def isWhole_Ints)
  have w: "dadd W a = W + a"
    using ints(2) assms(3,4) bounds(2) by (intro dadd_int) auto
  have n: "dsub N a = N - a"
    using ints(3) assms(3,4) bounds(3) by (intro dsub_int) auto
  have "balanced (b + \<bar>a\<bar>) (k, \<lparr>deposits = D, withdraws = W + a, net = N - a\<rparr>)"
    using ints bounds eq assms(3) by (auto simp: balanced_def isWhole_Ints)
  moreover have "list_all (balanced (b + \<bar>a\<bar>)) m"
    using assms(2) by (rule list_all_balanced_mono [rotated]) simp
  ultimately show ?thesis
    by (simp add: addWithdraw_def Let_def list_all_assignProp E w n)
qed

lemma adjustStep_balanced:
  assumes "0 \<le> b" and "list_all (balanced b) m" and "wholeAmount t"
    and "b + real (operationCount t) * \<bar>amountOf t\<bar> \<le> 2 ^ 53"
  shows "list_all (balanced (b + real (operationCount t) * \<bar>amountOf t\<bar>)) (adjustStep m t)"
proof (cases t)
  case (Deposit c s n a)
  then show ?thesis
    using assms addDeposit_balanced [of b m a] by (simp add: wholeAmount_def isWhole_Ints)
next
  case (Withdraw c s n a)
  then show ?thesis
    using assms addWithdraw_balanced [of b m a] by (simp add: wholeAmount_def isWhole_Ints)
next
  case (Move fc fs fn tc tsrc tn a)
  have a: "a \<in> \<int>" using assms(3) Move by (simp add: wholeAmount_def isWhole_Ints)
  have b2: "b + \<bar>a\<bar> + \<bar>a\<bar> \<le> 2 ^ 53" using assms(4) Move by simp
  then have b1: "b + \<bar>a\<bar> \<le> 2 ^ 53" by linarith
  have "list_all (balanced (b + \<bar>a\<bar>)) (addWithdraw (getAssetKey fc fs fn) a m)"
    using assms(1,2) a b1 by (rule addWithdraw_balanced)
  moreover have "0 \<le> b + \<bar>a\<bar>" using assms(1) by simp
  ultimately have "list_all (balanced (b + \<bar>a\<bar> + \<bar>a\<bar>))
      (addDeposit (getAssetKey tc tsrc tn) a (addWithdraw (getAssetKey fc fs fn) a m))"
    using a b2 by (intro addDeposit_balanced)
  then show ?thesis using Move by (simp add: add.assoc)
next
  case Other
  then show ?thesis using assms(2) by simp
qed

lemma foldl_adjustStep_balanced:
  "0 \<le> b \<Longrightarrow> list_all (balanced b) m \<Longrightarrow> list_all wholeAmount ts \<Longrightarrow>
   b + absAmountSum ts \<le> 2 ^ 53 \<Longrightarrow>
   list_all (balanced (b + absAmountSum ts)) (foldl adjustStep m ts)"
proof (induction ts arbitrary: b m)
  case Nil
  then show ?case by (simp add: absAmountSum_def)
next
  case (Cons t ts)
  let ?d = "real (operationCount t) * \<bar>amountOf t\<bar>"
  have split: "absAmountSum (t # ts) = ?d + absAmountSum ts"
    by (simp add: absAmountSum_def)
  have d0: "0 \<le> ?d" by simp
  have "b + ?d \<le> 2 ^ 53"
    using Cons.prems(4) split absAmountSum_nonneg [of ts] by linarith
  then have s: "list_all (balanced (b + ?d)) (adjustStep m t)"
    using Cons.prems(1,2,3) by (intro adjustStep_balanced) simp_all
  have "list_all (balanced (b + ?d + absAmountSum ts)) (foldl adjustStep (adjustStep m t) ts)"
    using Cons.prems s d0 split by (intro Cons.IH) simp_all
  then show ?case by (simp add: split add.assoc)
qed

text \<open>
  C10 (amended). Whatever the transfer list, \<open>getAdjustmentsPerAsset\<close> returns the empty
  map when the document argument is null or undefined, although a document that is
  present is never read (any two documents give the same map). When the document is
  present and the amounts are whole numbers whose absolute values, a move counted twice,
  add up to at most \<open>2 ^ 53\<close>, no addition rounds and every entry of the returned map has
  \<open>net = deposits - withdraws\<close>.
\<close>

theorem getAdjustmentsPerAsset_guard:
  "getAdjustmentsPerAsset ts None = []
   \<and> getAdjustmentsPerAsset ts (Some d) = getAdjustmentsPerAsset ts (Some d')
   \<and> (list_all wholeAmount l \<and> absAmountSum l \<le> 2 ^ 53
        \<and> (k, a) \<in> set (getAdjustmentsPerAsset (Some l) (Some d)) \<longrightarrow>
        net a = deposits a - withdraws a)"
proof -
  have "net a = deposits a - withdraws a"
    if w: "list_all wholeAmount l" and b: "absAmountSum l \<le> 2 ^ 53"
      and m: "(k, a) \<in> set (getAdjustmentsPerAsset (Some l) (Some d))"
  proof -
    have "list_all (balanced (0 + absAmountSum l)) (foldl adjustStep [] l)"
      using w b by (intro foldl_adjustStep_balanced) simp_all
    then have "balanced (0 + absAmountSum l) (k, a)"
      using m by (simp add: getAdjustmentsPerAsset_def list_all_iff)
    then show ?thesis by (simp add: balanced_def)
  qed
  then show ?thesis
    by (simp add: getAdjustmentsPerAsset_def split: option.split)
qed

theorem getAdjustmentsPerAsset_guard_witness:
  "getAdjustmentsPerAsset
     (Some [Deposit ''Crypto'' ''Ledger'' ''BTC'' 5, Withdraw ''crypto'' ''ledger'' ''btc'' 2,
            Move ''Crypto'' ''Ledger'' ''BTC'' ''Cash'' ''Bank'' ''USD'' 1]) None = []
   \<and> list_all wholeAmount
        [Deposit ''Crypto'' ''Ledger'' ''BTC'' 5, Withdraw ''crypto'' ''ledger'' ''btc'' 2,
         Move ''Crypto'' ''Ledger'' ''BTC'' ''Cash'' ''Bank'' ''USD'' 1]
   \<and> absAmountSum
        [Deposit ''Crypto'' ''Ledger'' ''BTC'' 5, Withdraw ''crypto'' ''ledger'' ''btc'' 2,
         Move ''Crypto'' ''Ledger'' ''BTC'' ''Cash'' ''Bank'' ''USD'' 1] = 9
   \<and> (''crypto_ledger_btc'', \<lparr>deposits = 5, withdraws = 3, net = 2\<rparr>)
       \<in> set (getAdjustmentsPerAsset
           (Some [Deposit ''Crypto'' ''Ledger'' ''BTC'' 5, Withdraw ''crypto'' ''ledger'' ''btc'' 2,
                  Move ''Crypto'' ''Ledger'' ''BTC'' ''Cash'' ''Bank'' ''USD'' 1]) (Some oneDocument))
   \<and> net \<lparr>deposits = 5, withdraws = 3, net = 2 :: real\<rparr>
       = deposits \<lparr>deposits = 5, withdraws = 3, net = 2 :: real\<rparr>
         - withdraws \<lparr>deposits = 5, withdraws = 3, net = 2 :: real\<rparr>"
  using getAdjustmentsPerAsset_guard
    [of "Some [Deposit ''Crypto'' ''Ledger'' ''BTC'' 5, Withdraw ''crypto'' ''ledger'' ''btc'' 2,
            Move ''Crypto'' ''Ledger'' ''BTC'' ''Cash'' ''Bank'' ''USD'' 1]"
        oneDocument twinDocument
        "[Deposit ''Crypto'' ''Ledger'' ''BTC'' 5, Withdraw ''crypto'' ''ledger'' ''btc'' 2,
            Move ''Crypto'' ''Ledger'' ''BTC'' ''Cash'' ''Bank'' ''USD'' 1]"
        "''crypto_ledger_btc''" "\<lparr>deposits = 5, withdraws = 3, net = 2\<rparr>"]
  by (simp add: getAdjustmentsPerAsset_def addDeposit_def addWithdraw_def entryOf_def Let_def
      assignProp_def getAssetKey_def toLowerCase_def toLowerChar_def isSpace_def
      wholeAmount_def isWhole_def absAmountSum_def dadd_int dsub_int)

text \<open>
  The three fields are accumulated separately. After a deposit of \<open>2 ^ 53\<close>, a withdraw
  of \<open>2 ^ 53\<close> and a deposit of 1 on one key, the deposits are \<open>2 ^ 53\<close>, the withdraws
  \<open>2 ^ 53\<close> and the net 1. After a deposit of 0.1, a withdraw of 0.1 and a deposit of 0.2
  the deposits are \<open>1351079888211149 / 2 ^ 52\<close>, the withdraws 0.1 and the net 0.2, which
  is not the difference of the two, neither exactly nor as doubles.
\<close>

theorem net_not_deposits_less_withdraws:
  "getAdjustmentsPerAsset
     (Some [Deposit ''crypto'' ''Ledger'' ''BTC'' 9007199254740992,
            Withdraw ''crypto'' ''Ledger'' ''BTC'' 9007199254740992,
            Deposit ''crypto'' ''Ledger'' ''BTC'' 1]) (Some oneDocument)
     = [(''crypto_ledger_btc'',
         \<lparr>deposits = 9007199254740992, withdraws = 9007199254740992, net = 1\<rparr>)]
   \<and> getAdjustmentsPerAsset
     (Some [Deposit ''crypto'' ''Ledger'' ''BTC'' (3602879701896397 / 2 ^ 55),
            Withdraw ''crypto'' ''Ledger'' ''BTC'' (3602879701896397 / 2 ^ 55),
            Deposit ''crypto'' ''Ledger'' ''BTC'' (3602879701896397 / 2 ^ 54)]) (Some oneDocument)
     = [(''crypto_ledger_btc'',
         \<lparr>deposits = 1351079888211149 / 2 ^ 52, withdraws = 3602879701896397 / 2 ^ 55,
          net = 3602879701896397 / 2 ^ 54\<rparr>)]
   \<and> (1351079888211149 / 2 ^ 52 - 3602879701896397 / 2 ^ 55 :: real)
       \<noteq> 3602879701896397 / 2 ^ 54
   \<and> dsub (1351079888211149 / 2 ^ 52) (3602879701896397 / 2 ^ 55)
       \<noteq> 3602879701896397 / 2 ^ 54"
  by (simp add: getAdjustmentsPerAsset_def addDeposit_def addWithdraw_def entryOf_def
      assignProp_def key_btc double_eval)

subsection \<open>Comparator\<close>

lemma set_uniq: "set (uniq seen ks) = set ks - set seen"
  by (induction ks arbitrary: seen) auto

lemma distinct_uniq: "distinct (uniq seen ks)"
  by (induction ks arbitrary: seen) (auto simp: set_uniq)

lemma map_of_foldl_obj_set:
  "map_of (foldl (\<lambda>acc k. obj_set k (f k) acc) m ks) k
     = (if k \<in> set ks then Some (f k) else map_of m k)"
  by (induction ks arbitrary: m) (simp_all add: map_of_obj_set)

lemma set_allAssetKeys:
  "set (allAssetKeys cur prev)
     = set (obj_keys (assetMap cur))
       \<union> (case prev of None \<Rightarrow> {} | Some p \<Rightarrow> set (obj_keys (assetMap p)))"
  by (simp add: allAssetKeys_def set_uniq split: option.split)

lemma set_allCatIds:
  "set (allCatIds cur prev)
     = set (obj_keys (categories cur))
       \<union> (case prev of None \<Rightarrow> {} | Some p \<Rightarrow> set (obj_keys (categories p)))"
  by (simp add: allCatIds_def set_uniq split: option.split)

lemma assets_lookup:
  "map_of (assets (compareSnapshots cur prev adjustments)) k
     = (if k \<in> set (allAssetKeys cur prev) then Some (compareAsset cur prev adjustments k)
        else None)"
  by (simp add: compareSnapshots_def map_of_foldl_obj_set)

lemma categories_lookup:
  "map_of (categories_c (compareSnapshots cur prev adjustments)) catId
     = (if catId \<in> set (allCatIds cur prev)
        then Some (compareCategory cur prev adjustments catId) else None)"
  by (simp add: compareSnapshots_def map_of_foldl_obj_set)

lemma foldl_prefixed:
  "foldl (\<lambda>acc (k, adj). if prefix p k then acc + net adj else acc) a m
     = a + sum_list (map (\<lambda>(k, adj). net adj) (filter (\<lambda>(k, adj). prefix p k) m))"
  by (induction m arbitrary: a) (auto simp: case_prod_beta)

lemma catAdjustment_sum: "catAdjustment adjustments catId = prefixedNetSum adjustments catId"
  by (simp add: catAdjustment_def prefixedNetSum_def foldl_prefixed)

text \<open>
  C8. For a category identifier of either snapshot, the category record of the comparison
  takes as its adjustment the sum of the net adjustments of exactly the entries of the
  adjustment map whose key starts with the identifier followed by an underscore:
  \<open>adjustedStart\<close> is the previous category total plus that sum, and \<open>delta\<close> is the
  current category total less \<open>adjustedStart\<close>.
\<close>

theorem category_adjustment_prefix:
  "catId \<in> set (obj_keys (categories cur))
           \<union> (case prev of None \<Rightarrow> {} | Some p \<Rightarrow> set (obj_keys (categories p))) \<longrightarrow>
   (\<exists>r. map_of (categories_c (compareSnapshots cur prev adjustments)) catId = Some r
        \<and> adjustedStart r = previousVal r + prefixedNetSum adjustments catId
        \<and> delta r = currentVal r - adjustedStart r
        \<and> currentVal r = (case map_of (categories cur) catId of None \<Rightarrow> 0 | Some c \<Rightarrow> total_cd c)
        \<and> previousVal r =
            (case prev of None \<Rightarrow> 0
             | Some p \<Rightarrow> (case map_of (categories p) catId of None \<Rightarrow> 0 | Some c \<Rightarrow> total_cd c)))"
  by (auto simp: categories_lookup set_allCatIds compareCategory_def catAdjustment_sum
      calculateDelta_def Let_def split: option.splits)

text \<open>
  C6. Every asset key of either snapshot gets one record with one status, by precedence:
  \<open>New\<close> if the current value is positive and the key has no previous entry, else
  \<open>Ghost\<close> if the current value is 0 and the previous value positive, else \<open>Hidden\<close> if
  both are 0, else \<open>Normal\<close>. An asset that was 500 and is now 0 (or gone), with no
  adjustment, is \<open>Ghost\<close> with \<open>delta = -500\<close> and \<open>percent = -100\<close>.
\<close>

theorem compareSnapshots_status:
  "(k \<in> set (obj_keys (assetMap cur))
        \<union> (case prev of None \<Rightarrow> {} | Some p \<Rightarrow> set (obj_keys (assetMap p))) \<longrightarrow>
    (\<exists>r. map_of (assets (compareSnapshots cur prev adjustments)) k = Some r
         \<and> currentVal r = (case map_of (assetMap cur) k of None \<Rightarrow> 0 | Some a \<Rightarrow> val_a a)
         \<and> previousVal r =
             (case prev of None \<Rightarrow> 0
              | Some p \<Rightarrow> (case map_of (assetMap p) k of None \<Rightarrow> 0 | Some a \<Rightarrow> val_a a))
         \<and> status r =
             (if currentVal r > 0
                 \<and> (case prev of None \<Rightarrow> True | Some p \<Rightarrow> map_of (assetMap p) k = None)
              then New
              else if currentVal r = 0 \<and> previousVal r > 0 then Ghost
              else if currentVal r = 0 \<and> previousVal r = 0 then Hidden
              else Normal)))
   \<and> (map_of (assetMap p) k = Some a \<and> val_a a = 500
        \<and> (case map_of (assetMap cur) k of None \<Rightarrow> True | Some c \<Rightarrow> val_a c = 0)
        \<and> map_of adjustments k = None \<longrightarrow>
       (\<exists>r. map_of (assets (compareSnapshots cur (Some p) adjustments)) k = Some r
            \<and> status r = Ghost \<and> delta r = - 500 \<and> percent r = - 100))"
proof -
  have in_keys: "k \<in> set (allAssetKeys cur (Some p))" if "map_of (assetMap p) k = Some a"
  proof -
    from that have "(k, a) \<in> set (assetMap p)" by (rule map_of_SomeD)
    then have "k \<in> set (obj_keys (assetMap p))" by (force simp: obj_keys_def)
    then show ?thesis by (simp add: set_allAssetKeys)
  qed
  have general: "k \<in> set (allAssetKeys cur prev) \<longrightarrow>
    (\<exists>r. map_of (assets (compareSnapshots cur prev adjustments)) k = Some r
         \<and> currentVal r = (case map_of (assetMap cur) k of None \<Rightarrow> 0 | Some a \<Rightarrow> val_a a)
         \<and> previousVal r =
             (case prev of None \<Rightarrow> 0
              | Some p \<Rightarrow> (case map_of (assetMap p) k of None \<Rightarrow> 0 | Some a \<Rightarrow> val_a a))
         \<and> status r =
             (if currentVal r > 0
                 \<and> (case prev of None \<Rightarrow> True | Some p \<Rightarrow> map_of (assetMap p) k = None)
              then New
              else if currentVal r = 0 \<and> previousVal r > 0 then Ghost
              else if currentVal r = 0 \<and> previousVal r = 0 then Hidden
              else Normal))"
    by (cases prev)
      (simp_all add: assets_lookup compareAsset_def calculateDelta_def Let_def)
  have example: "\<exists>r. map_of (assets (compareSnapshots cur (Some p) adjustments)) k = Some r
            \<and> status r = Ghost \<and> delta r = - 500 \<and> percent r = - 100"
    if "map_of (assetMap p) k = Some a" "val_a a = 500"
       "case map_of (assetMap cur) k of None \<Rightarrow> True | Some c \<Rightarrow> val_a c = 0"
       "map_of adjustments k = None"
    using that in_keys [OF that(1)]
    by (cases "map_of (assetMap cur) k")
      (simp_all add: assets_lookup compareAsset_def calculateDelta_def Let_def)
  show ?thesis
    using general example by (simp add: set_allAssetKeys)
qed

lemma snapshot_of_one_asset:
  "v \<in> \<int> \<Longrightarrow> \<bar>v\<bar> \<le> 2 ^ 53 \<Longrightarrow>
   buildSnapshot (Some \<lparr>portfolio = Categories
        [\<lparr>id_cat = ''crypto'', title = ''Crypto'', color = ''#f00'',
          items = Some [raw_item ''BTC'' ''Ledger'' v]\<rparr>]\<rparr>)
   = Inr \<lparr>total_s = v,
      categories =
        [(''crypto'',
          \<lparr>id_cd = ''crypto'', title_cd = ''Crypto'', color_cd = ''#f00'', total_cd = v,
           items_cd =
             [(''crypto_ledger_btc'',
               \<lparr>key = ''crypto_ledger_btc'', categoryId = ''crypto'', source_a = ''Ledger'',
                name_a = ''BTC'', val_a = v, originalVal_a = v, isVirtual_a = False,
                adjustment_a = 0\<rparr>)]\<rparr>)],
      assetMap =
        [(''crypto_ledger_btc'',
          \<lparr>key = ''crypto_ledger_btc'', categoryId = ''crypto'', source_a = ''Ledger'',
           name_a = ''BTC'', val_a = v, originalVal_a = v, isVirtual_a = False,
           adjustment_a = 0\<rparr>)]\<rparr>"
  by (simp add: buildSnapshot_def emptySnapshot_def catStep_def catBody_def mkAssetData_def
      raw_item_def assignProp_def key_btc Let_def dadd_int)

theorem compareSnapshots_status_witness:
  "''crypto_ledger_btc''
     \<in> set (obj_keys (assetMap (projr (buildSnapshot (Some soldDocument)))))
   \<and> map_option val_a
        (map_of (assetMap (projr (buildSnapshot (Some heldDocument)))) ''crypto_ledger_btc'')
       = Some 500
   \<and> map_option val_a
        (map_of (assetMap (projr (buildSnapshot (Some soldDocument)))) ''crypto_ledger_btc'')
       = Some 0
   \<and> map_option (\<lambda>r. (status r, delta r, percent r))
        (map_of (assets (compareSnapshots (projr (buildSnapshot (Some soldDocument)))
                          (Some (projr (buildSnapshot (Some heldDocument)))) []))
           ''crypto_ledger_btc'')
       = Some (Ghost, - 500, - 100)"
  using compareSnapshots_status
    [of "''crypto_ledger_btc''" "projr (buildSnapshot (Some soldDocument))"
        "Some (projr (buildSnapshot (Some heldDocument)))" "[]"
        "projr (buildSnapshot (Some heldDocument))"
        "\<lparr>key = ''crypto_ledger_btc'', categoryId = ''crypto'', source_a = ''Ledger'',
          name_a = ''BTC'', val_a = 500, originalVal_a = 500, isVirtual_a = False,
          adjustment_a = 0\<rparr>"]
  by (auto simp: soldDocument_def heldDocument_def snapshot_of_one_asset obj_keys_def)

theorem category_adjustment_prefix_witness:
  "''crypto'' \<in> set (obj_keys (categories (projr (buildSnapshot (Some soldDocument)))))
   \<and> prefixedNetSum exampleAdjustments ''crypto'' = - 8
   \<and> map_option adjustedStart
        (map_of (categories_c (compareSnapshots (projr (buildSnapshot (Some soldDocument)))
                                (Some (projr (buildSnapshot (Some heldDocument))))
                                exampleAdjustments))
           ''crypto'')
       = Some 492"
  using category_adjustment_prefix
    [of "''crypto''" "projr (buildSnapshot (Some soldDocument))"
        "Some (projr (buildSnapshot (Some heldDocument)))" exampleAdjustments]
  by (auto simp: soldDocument_def heldDocument_def snapshot_of_one_asset obj_keys_def
      prefixedNetSum_def exampleAdjustments_def)

end
